theory Spec2Isabelle
  imports Complex_Main "HOL-Library.Multiset" "HOL-Library.Char_ord" "HOL-Library.List_Lexorder"
begin

section \<open>Tables of the annotation stage\<close>

text \<open>
  The annotation module \<^verbatim>\<open>annotate.py\<close> works on dask data frames whose columns are fixed
  by the processing stage: the header comment of \<^verbatim>\<open>read_processed_variants\<close> lists the
  variant columns, the calls of \<^verbatim>\<open>annotate_variants\<close> name the gene columns. A row of such
  a frame is a record with one field per column; a frame is the list of its rows, in the
  order in which its partitions hold them.

  A cell of a column that is read by inference carries what the inference made of it: a
  text, an integer, a float, a truth value, or the missing value NaN. A column has one
  dtype for all its cells.
\<close>

datatype scalar = Obj string | I64 int | F64 real | Bool bool | NA

datatype dtype = Object_dtype | Int64_dtype | Float64_dtype | Bool_dtype

text \<open>
  The variant frame. Its \<^verbatim>\<open>transcript\<close> column has the dtype \<^verbatim>\<open>object\<close>, which the reader
  requests, so a cell of it is a text \<open>Some s\<close> or the missing value \<open>None\<close>; the same
  holds for the other text columns. The labels of the \<^verbatim>\<open>chromosome\<close> column are of any
  type \<open>'c\<close>: the inference reads \<^verbatim>\<open>1\<close>, \<^verbatim>\<open>2\<close> as integers and \<^verbatim>\<open>X\<close>, \<^verbatim>\<open>Y\<close> as text.
\<close>

record 'c variant_row =
  v_chromosome :: "'c option"
  v_rsid :: "string option"
  v_start :: "int option"
  v_end :: "int option"
  v_observed :: "string option"
  v_maf :: "real option"
  v_effect :: "string option"
  v_transcript :: "string option"

text \<open>
  The gene frame. The reader requests no dtype, so the \<^verbatim>\<open>transcript_id\<close> column has
  the dtype that the inference gives it, and the frame carries that dtype.
\<close>

record gene_row =
  g_transcript_id :: scalar
  g_gene_id :: "string option"
  g_gene_name :: "string option"
  g_biotype :: "string option"
  g_chromosome :: scalar

record gene_frame =
  transcript_id_dtype :: dtype
  gene_rows :: "gene_row list"

text \<open>
  The frame after \<^verbatim>\<open>vdf.merge(gdf, how='left', left_on='transcript',
  right_on='transcript_id', suffixes=('_l', '_r'))\<close>: the variant columns, then the gene
  columns; the one column name both sides have, \<^verbatim>\<open>chromosome\<close>, gets the suffixes.
\<close>

record 'c merged_row =
  m_chromosome_l :: "'c option"
  m_rsid :: "string option"
  m_start :: "int option"
  m_end :: "int option"
  m_observed :: "string option"
  m_maf :: "real option"
  m_effect :: "string option"
  m_transcript :: "string option"
  m_transcript_id :: scalar
  m_gene_id :: "string option"
  m_gene_name :: "string option"
  m_biotype :: "string option"
  m_chromosome_r :: scalar

text \<open>
  The frame after \<^verbatim>\<open>df.rename(columns={'effect': 'variant_effect', 'biotype':
  'gene_biotype', 'chromosome_l': 'chromosome'})\<close>.
\<close>

record 'c renamed_row =
  r_chromosome :: "'c option"
  r_rsid :: "string option"
  r_start :: "int option"
  r_end :: "int option"
  r_observed :: "string option"
  r_maf :: "real option"
  r_variant_effect :: "string option"
  r_transcript :: "string option"
  r_transcript_id :: scalar
  r_gene_id :: "string option"
  r_gene_name :: "string option"
  r_gene_biotype :: "string option"
  r_chromosome_r :: scalar

text \<open>The annotated frame: the seven columns \<^verbatim>\<open>annotate_variants\<close> returns.\<close>

record 'c annotated_row =
  a_chromosome :: "'c option"
  a_rsid :: "string option"
  a_variant_effect :: "string option"
  a_transcript :: "string option"
  a_gene_id :: "string option"
  a_gene_name :: "string option"
  a_gene_biotype :: "string option"

text \<open>The frames the two filters return (\<^verbatim>\<open>.loc[:, keep]\<close>).\<close>

record 'c intergenic_row =
  i_chromosome :: "'c option"
  i_rsid :: "string option"
  i_variant_effect :: "string option"

record 'c intragenic_row =
  n_chromosome :: "'c option"
  n_rsid :: "string option"
  n_variant_effect :: "string option"
  n_gene_id :: "string option"
  n_gene_name :: "string option"
  n_gene_biotype :: "string option"

text \<open>The exceptions of pandas and dask that the model makes explicit.\<close>

datatype error = ValueError | KeyError string

section \<open>annotate\_variants\<close>

text \<open>
  The rows of a left merge. Every left row is kept. A left row whose key equals the key
  of one or more right rows is paired with each of them; a left row with no partner gets
  NaN in every right column. As pandas does, a missing key matches a missing key. A text
  key equals no integer, float or truth value. \<open>left_join\<close> lists the rows as pandas
  does when each frame is one partition: in the order of the left frame, the partners of
  a row in the order of the right frame.
\<close>

definition null_gene :: gene_row where
  "null_gene = \<lparr>g_transcript_id = NA, g_gene_id = None, g_gene_name = None,
     g_biotype = None, g_chromosome = NA\<rparr>"

definition join_row :: "'c variant_row \<Rightarrow> gene_row \<Rightarrow> 'c merged_row" where
  "join_row v g =
     \<lparr>m_chromosome_l = v_chromosome v, m_rsid = v_rsid v, m_start = v_start v,
      m_end = v_end v, m_observed = v_observed v, m_maf = v_maf v, m_effect = v_effect v,
      m_transcript = v_transcript v, m_transcript_id = g_transcript_id g,
      m_gene_id = g_gene_id g, m_gene_name = g_gene_name g, m_biotype = g_biotype g,
      m_chromosome_r = g_chromosome g\<rparr>"

definition transcript_key :: "'c variant_row \<Rightarrow> scalar" where
  "transcript_key v = (case v_transcript v of None \<Rightarrow> NA | Some s \<Rightarrow> Obj s)"

definition partners :: "'c variant_row \<Rightarrow> gene_row list \<Rightarrow> gene_row list" where
  "partners v gdf = filter (\<lambda>g. g_transcript_id g = transcript_key v) gdf"

definition matches :: "'c variant_row \<Rightarrow> gene_row list \<Rightarrow> gene_row list" where
  "matches v gdf = (case partners v gdf of [] \<Rightarrow> [null_gene] | g # gs \<Rightarrow> g # gs)"

definition left_join :: "'c variant_row list \<Rightarrow> gene_row list \<Rightarrow> 'c merged_row list" where
  "left_join vdf gdf = concat (map (\<lambda>v. map (join_row v) (matches v gdf)) vdf)"

text \<open>
  The frames are dask frames, cut into partitions. How many partitions a frame has is
  not said in \<^verbatim>\<open>annotate.py\<close> (the readers leave the block size to dask), and a merge of
  partitioned frames brings the rows together partition by partition, in an order that
  the order of the two inputs does not fix. So the model admits several results of the
  merge: the rows of \<open>left_join\<close>, in any order. \<open>orders\<close> lists all of them. Which of
  them a run produces depends on the partitions and on the scheduler; what holds of every
  admitted result holds of the result of every run.
\<close>

fun inserts :: "'a \<Rightarrow> 'a list \<Rightarrow> 'a list list" where
  "inserts x [] = [[x]]"
| "inserts x (y # ys) = (x # y # ys) # map ((#) y) (inserts x ys)"

fun orders :: "'a list \<Rightarrow> 'a list list" where
  "orders [] = [[]]"
| "orders (x # xs) = concat (map (inserts x) (orders xs))"

text \<open>
  Before it builds the graph, dask merges the empty frames that stand for the two inputs,
  and pandas refuses there to merge a text key with a numeric key: the call raises
  \<^verbatim>\<open>ValueError\<close> when the right key column is \<^verbatim>\<open>int64\<close> or \<^verbatim>\<open>float64\<close>. A column of
  truth values is let through.
\<close>

definition merge :: "'c variant_row list \<Rightarrow> gene_frame \<Rightarrow> error + 'c merged_row list list" where
  "merge vdf gdf =
     (if transcript_id_dtype gdf \<in> {Int64_dtype, Float64_dtype} then Inl ValueError
      else Inr (orders (left_join vdf (gene_rows gdf))))"

definition rename_columns :: "'c merged_row \<Rightarrow> 'c renamed_row" where
  "rename_columns m =
     \<lparr>r_chromosome = m_chromosome_l m, r_rsid = m_rsid m, r_start = m_start m,
      r_end = m_end m, r_observed = m_observed m, r_maf = m_maf m,
      r_variant_effect = m_effect m, r_transcript = m_transcript m,
      r_transcript_id = m_transcript_id m, r_gene_id = m_gene_id m,
      r_gene_name = m_gene_name m, r_gene_biotype = m_biotype m,
      r_chromosome_r = m_chromosome_r m\<rparr>"

text \<open>
  \<^verbatim>\<open>drop_duplicates(subset=..., keep='first')\<close>: the frame is read top to bottom, and a
  row is dropped when its key was seen on an earlier row. Missing values count as equal.
\<close>

fun drop_seen :: "'k list \<Rightarrow> ('r \<Rightarrow> 'k) \<Rightarrow> 'r list \<Rightarrow> 'r list" where
  "drop_seen seen key [] = []"
| "drop_seen seen key (r # rs) =
     (if key r \<in> set seen then drop_seen seen key rs
      else r # drop_seen (key r # seen) key rs)"

definition drop_duplicates :: "('r \<Rightarrow> 'k) \<Rightarrow> 'r list \<Rightarrow> 'r list" where
  "drop_duplicates key df = drop_seen [] key df"

type_synonym subset_key = "string option \<times> string option \<times> string option"

definition subset_cols :: "'c renamed_row \<Rightarrow> subset_key" where
  "subset_cols r = (r_rsid r, r_variant_effect r, r_gene_id r)"

definition select_columns :: "'c renamed_row \<Rightarrow> 'c annotated_row" where
  "select_columns r =
     \<lparr>a_chromosome = r_chromosome r, a_rsid = r_rsid r,
      a_variant_effect = r_variant_effect r, a_transcript = r_transcript r,
      a_gene_id = r_gene_id r, a_gene_name = r_gene_name r,
      a_gene_biotype = r_gene_biotype r\<rparr>"

text \<open>The three steps after the merge, on one of its admitted results.\<close>

definition annotate_merged :: "'c merged_row list \<Rightarrow> 'c annotated_row list" where
  "annotate_merged df =
     (let df = map rename_columns df;
          df = drop_duplicates subset_cols df
      in map select_columns df)"

text \<open>
  \<^verbatim>\<open>annotate_variants\<close> raises what the merge raises; else the results it may return are
  listed, one for each admitted result of the merge. The deduplication reads the merged
  frame in its row order.
\<close>

definition annotate_variants ::
  "'c variant_row list \<Rightarrow> gene_frame \<Rightarrow> error + 'c annotated_row list list" where
  "annotate_variants vdf gdf =
     (case merge vdf gdf of
        Inl e \<Rightarrow> Inl e
      | Inr dfs \<Rightarrow> Inr (map annotate_merged dfs))"

text \<open>The key of the deduplication, read on a row of the annotated frame.\<close>

definition annotated_key :: "'c annotated_row \<Rightarrow> subset_key" where
  "annotated_key a = (a_rsid a, a_variant_effect a, a_gene_id a)"

text \<open>The row of the annotated frame that a variant row and a gene row give.\<close>

definition annotation :: "'c variant_row \<Rightarrow> gene_row \<Rightarrow> 'c annotated_row" where
  "annotation v g =
     \<lparr>a_chromosome = v_chromosome v, a_rsid = v_rsid v, a_variant_effect = v_effect v,
      a_transcript = v_transcript v, a_gene_id = g_gene_id g, a_gene_name = g_gene_name g,
      a_gene_biotype = g_biotype g\<rparr>"

section \<open>The two filters\<close>

definition is_intergenic :: "'c annotated_row \<Rightarrow> bool" where
  "is_intergenic r = (a_variant_effect r = Some ''intergenic'')"

definition is_not_intergenic :: "'c annotated_row \<Rightarrow> bool" where
  "is_not_intergenic r = (a_variant_effect r \<noteq> Some ''intergenic'')"

definition is_mapped :: "'c annotated_row \<Rightarrow> bool" where
  "is_mapped r = (a_gene_id r \<noteq> None)"

definition is_not_mapped :: "'c annotated_row \<Rightarrow> bool" where
  "is_not_mapped r = (a_gene_id r = None)"

definition keep_intergenic :: "'c annotated_row \<Rightarrow> 'c intergenic_row" where
  "keep_intergenic r =
     \<lparr>i_chromosome = a_chromosome r, i_rsid = a_rsid r,
      i_variant_effect = a_variant_effect r\<rparr>"

definition keep_annotated :: "'c annotated_row \<Rightarrow> 'c intragenic_row" where
  "keep_annotated r =
     \<lparr>n_chromosome = a_chromosome r, n_rsid = a_rsid r,
      n_variant_effect = a_variant_effect r, n_gene_id = a_gene_id r,
      n_gene_name = a_gene_name r, n_gene_biotype = a_gene_biotype r\<rparr>"

text \<open>
  The three row selections of the module: \<^verbatim>\<open>df[is_intergenic]\<close>,
  \<^verbatim>\<open>df[is_not_intergenic & is_mapped]\<close> and \<^verbatim>\<open>df[is_not_intergenic & is_not_mapped]\<close>.
  The first two are those of the two filters, all three are those of
  \<^verbatim>\<open>collect_annotation_stats\<close>. A selection keeps the order of the rows.
\<close>

definition intergenic_rows :: "'c annotated_row list \<Rightarrow> 'c annotated_row list" where
  "intergenic_rows df = filter is_intergenic df"

definition mapped_rows :: "'c annotated_row list \<Rightarrow> 'c annotated_row list" where
  "mapped_rows df = filter (\<lambda>r. is_not_intergenic r \<and> is_mapped r) df"

definition failed_rows :: "'c annotated_row list \<Rightarrow> 'c annotated_row list" where
  "failed_rows df = filter (\<lambda>r. is_not_intergenic r \<and> is_not_mapped r) df"

definition isolate_intergenic_variants :: "'c annotated_row list \<Rightarrow> 'c intergenic_row list" where
  "isolate_intergenic_variants df = map keep_intergenic (intergenic_rows df)"

definition isolate_annotated_variants :: "'c annotated_row list \<Rightarrow> 'c intragenic_row list" where
  "isolate_annotated_variants df = map keep_annotated (mapped_rows df)"

section \<open>The column index of the annotated frame\<close>

text \<open>
  The records above fix the columns of each frame. The names themselves are traced here
  through the four calls of \<^verbatim>\<open>annotate_variants\<close>, as pandas computes them: the merge
  appends the suffixes to every name that both frames have (the two key columns have
  different names, so both are kept), the rename maps the names of its dictionary, the
  deduplication and the selection raise \<^verbatim>\<open>KeyError\<close> for a name the frame lacks.
\<close>

definition variant_columns :: "string list" where
  "variant_columns = [''chromosome'', ''rsid'', ''start'', ''end'', ''observed'', ''maf'',
     ''effect'', ''transcript'']"

definition gene_columns :: "string list" where
  "gene_columns = [''transcript_id'', ''gene_id'', ''gene_name'', ''biotype'', ''chromosome'']"

definition merge_columns :: "string list \<Rightarrow> string list \<Rightarrow> string \<times> string \<Rightarrow> string list" where
  "merge_columns l r suffixes =
     map (\<lambda>c. if c \<in> set r then c @ fst suffixes else c) l @
     map (\<lambda>c. if c \<in> set l then c @ snd suffixes else c) r"

definition rename :: "(string \<times> string) list \<Rightarrow> string list \<Rightarrow> string list" where
  "rename columns cs = map (\<lambda>c. case map_of columns c of Some c' \<Rightarrow> c' | None \<Rightarrow> c) cs"

definition missing_columns :: "string list \<Rightarrow> string list \<Rightarrow> string list" where
  "missing_columns wanted cs = filter (\<lambda>c. c \<notin> set cs) wanted"

definition drop_duplicates_columns :: "string list \<Rightarrow> string list \<Rightarrow> error + string list" where
  "drop_duplicates_columns cols cs =
     (case missing_columns cols cs of [] \<Rightarrow> Inr cs | c # _ \<Rightarrow> Inl (KeyError c))"

definition getitem_columns :: "string list \<Rightarrow> string list \<Rightarrow> error + string list" where
  "getitem_columns keep cs =
     (case missing_columns keep cs of [] \<Rightarrow> Inr keep | c # _ \<Rightarrow> Inl (KeyError c))"

definition annotate_variants_columns :: "string list \<Rightarrow> string list \<Rightarrow> error + string list" where
  "annotate_variants_columns vcols gcols =
     (let cs = merge_columns vcols gcols (''_l'', ''_r'');
          cs = rename [(''effect'', ''variant_effect''), (''biotype'', ''gene_biotype''),
                       (''chromosome_l'', ''chromosome'')] cs
      in case drop_duplicates_columns [''rsid'', ''variant_effect'', ''gene_id''] cs of
           Inl e \<Rightarrow> Inl e
         | Inr cs \<Rightarrow> getitem_columns [''chromosome'', ''rsid'', ''variant_effect'', ''transcript'',
                      ''gene_id'', ''gene_name'', ''gene_biotype''] cs)"

section \<open>collect\_annotation\_stats\<close>

text \<open>
  A cell of the statistics frame carries its dtype: an \<^verbatim>\<open>int64\<close>, a \<^verbatim>\<open>float64\<close> or the
  missing value NaN (which pandas holds in a \<^verbatim>\<open>float64\<close> column). The floats that occur
  here are counts and the fill value, so a real number stands for a float.
\<close>

datatype cell = Int64 int | Float64 real | NaN

text \<open>A series of counts: index label (the chromosome) and value, in index order.\<close>

type_synonym 'c series = "('c \<times> int) list"

record 'c stats_row =
  s_chromosome :: 'c
  s_intra_mapped :: cell
  s_intra_failed :: cell
  s_intergenic :: cell

text \<open>
  \<^verbatim>\<open>groupby('chromosome')\<close>: one group per chromosome label that occurs, the groups
  sorted by label (text by code points, integers by value); rows with a missing chromosome
  belong to no group.
\<close>

definition group_keys :: "('c::linorder) annotated_row list \<Rightarrow> 'c list" where
  "group_keys df = sort (remdups (List.map_filter a_chromosome df))"

text \<open>
  \<^verbatim>\<open>.count().loc[:, 'rsid']\<close>: per group, the number of rows whose \<^verbatim>\<open>rsid\<close> is not
  missing.
\<close>

definition count_rsid :: "'c annotated_row list \<Rightarrow> 'c \<Rightarrow> int" where
  "count_rsid df c = int (length (filter (\<lambda>r. a_chromosome r = Some c \<and> a_rsid r \<noteq> None) df))"

definition groupby_count_rsid :: "('c::linorder) annotated_row list \<Rightarrow> 'c series" where
  "groupby_count_rsid df = map (\<lambda>c. (c, count_rsid df c)) (group_keys df)"

text \<open>
  \<^verbatim>\<open>pd.concat([...], axis=1, sort=True)\<close>: the index of the result is the sorted union of
  the three indexes. A series that lacks a label of the union is reindexed: it gets NaN
  there and its dtype becomes \<^verbatim>\<open>float64\<close>; a series with every label keeps \<^verbatim>\<open>int64\<close>.
\<close>

definition union_index :: "('c::linorder) series list \<Rightarrow> 'c list" where
  "union_index ss = sort (remdups (concat (map (map fst) ss)))"

definition upcast :: "'c list \<Rightarrow> 'c series \<Rightarrow> bool" where
  "upcast idx s = (\<not> list_all (\<lambda>l. map_of s l \<noteq> None) idx)"

definition reindex_cell :: "'c list \<Rightarrow> 'c series \<Rightarrow> 'c \<Rightarrow> cell" where
  "reindex_cell idx s l =
     (case map_of s l of
        None \<Rightarrow> NaN
      | Some n \<Rightarrow> if upcast idx s then Float64 (real_of_int n) else Int64 n)"

definition concat_axis1 ::
  "('c::linorder) series \<Rightarrow> 'c series \<Rightarrow> 'c series \<Rightarrow> 'c stats_row list" where
  "concat_axis1 a b c =
     (let idx = union_index [a, b, c]
      in map (\<lambda>l. \<lparr>s_chromosome = l, s_intra_mapped = reindex_cell idx a l,
                    s_intra_failed = reindex_cell idx b l,
                    s_intergenic = reindex_cell idx c l\<rparr>) idx)"

text \<open>\<^verbatim>\<open>.fillna(0)\<close>: NaN stands in a float column, so the fill is the float 0.\<close>

definition fillna_cell :: "cell \<Rightarrow> cell" where
  "fillna_cell x = (case x of NaN \<Rightarrow> Float64 0 | _ \<Rightarrow> x)"

definition fillna :: "'c stats_row list \<Rightarrow> 'c stats_row list" where
  "fillna st =
     map (\<lambda>r. \<lparr>s_chromosome = s_chromosome r, s_intra_mapped = fillna_cell (s_intra_mapped r),
                s_intra_failed = fillna_cell (s_intra_failed r),
                s_intergenic = fillna_cell (s_intergenic r)\<rparr>) st"

text \<open>
  \<^verbatim>\<open>.astype(np.int64)\<close>: a float is truncated towards zero; a NaN cannot be converted and
  the call raises \<^verbatim>\<open>ValueError\<close>.
\<close>

definition astype_cell :: "cell \<Rightarrow> error + cell" where
  "astype_cell x =
     (case x of
        Int64 n \<Rightarrow> Inr (Int64 n)
      | Float64 f \<Rightarrow> Inr (Int64 (if 0 \<le> f then \<lfloor>f\<rfloor> else \<lceil>f\<rceil>))
      | NaN \<Rightarrow> Inl ValueError)"

definition astype_row :: "'c stats_row \<Rightarrow> error + 'c stats_row" where
  "astype_row r =
     (case astype_cell (s_intra_mapped r) of Inl e \<Rightarrow> Inl e | Inr m \<Rightarrow>
       (case astype_cell (s_intra_failed r) of Inl e \<Rightarrow> Inl e | Inr f \<Rightarrow>
         (case astype_cell (s_intergenic r) of Inl e \<Rightarrow> Inl e | Inr i \<Rightarrow>
            Inr \<lparr>s_chromosome = s_chromosome r, s_intra_mapped = m, s_intra_failed = f,
                 s_intergenic = i\<rparr>)))"

fun astype :: "'c stats_row list \<Rightarrow> error + 'c stats_row list" where
  "astype [] = Inr []"
| "astype (r # rs) =
     (case astype_row r of Inl e \<Rightarrow> Inl e | Inr r' \<Rightarrow>
       (case astype rs of Inl e \<Rightarrow> Inl e | Inr rs' \<Rightarrow> Inr (r' # rs')))"

definition collect_annotation_stats ::
  "('c::linorder) annotated_row list \<Rightarrow> error + 'c stats_row list" where
  "collect_annotation_stats df =
     (let intra_mapped = groupby_count_rsid (mapped_rows df);
          intra_failed = groupby_count_rsid (failed_rows df);
          intergenic = groupby_count_rsid (intergenic_rows df);
          stats = fillna (concat_axis1 intra_mapped intra_failed intergenic)
      in astype stats)"

text \<open>The rows of a frame that lie on one chromosome.\<close>

definition rows_on :: "'c annotated_row list \<Rightarrow> 'c \<Rightarrow> 'c annotated_row list" where
  "rows_on df c = filter (\<lambda>r. a_chromosome r = Some c) df"

text \<open>The rows of a frame whose \<^verbatim>\<open>rsid\<close> is present, and those whose \<^verbatim>\<open>rsid\<close> is missing.\<close>

definition named_rows :: "'c annotated_row list \<Rightarrow> 'c annotated_row list" where
  "named_rows df = filter (\<lambda>r. a_rsid r \<noteq> None) df"

definition unnamed_rows :: "'c annotated_row list \<Rightarrow> 'c annotated_row list" where
  "unnamed_rows df = filter (\<lambda>r. a_rsid r = None) df"

text \<open>
  The row of integer counts for one chromosome label; the statistics frame is shown below
  to consist of these rows.
\<close>

definition stats_of :: "'c annotated_row list \<Rightarrow> 'c \<Rightarrow> 'c stats_row" where
  "stats_of df l =
     \<lparr>s_chromosome = l, s_intra_mapped = Int64 (count_rsid (mapped_rows df) l),
      s_intra_failed = Int64 (count_rsid (failed_rows df) l),
      s_intergenic = Int64 (count_rsid (intergenic_rows df) l)\<rparr>"

section \<open>Reading the processed tables\<close>

text \<open>
  \<^verbatim>\<open>read_csv\<close> splits the file into lines and fields (\<^verbatim>\<open>sep\<close>, \<^verbatim>\<open>comment\<close>, the header
  line); that part is pandas's own and is not modelled. A file is given here as it stands
  after the splitting: for each column its name and the text of its fields. What the two
  readers differ in is the conversion of the fields. A column whose dtype is given as
  \<^verbatim>\<open>object\<close> keeps the text of every field. Any other column is converted by inference:
  to \<^verbatim>\<open>int64\<close> when every field is an integer literal, else to \<^verbatim>\<open>float64\<close> when every
  field is a number, else to \<^verbatim>\<open>bool\<close>, else it is kept as text. In both cases a field
  that is one of the default NA strings becomes NaN (in an integer column this turns the
  column into \<^verbatim>\<open>float64\<close>, in a column of truth values into \<^verbatim>\<open>object\<close>); a column
  with no field is \<^verbatim>\<open>object\<close>. The parser of floating-point literals is a parameter.
  The list of the NA strings is the default list of pandas; its versions differ in the
  entries \<^verbatim>\<open><NA>\<close> and \<^verbatim>\<open>None\<close>, on which nothing below depends.
  A frame lists, for each column, its name, its dtype and its cells.
\<close>

type_synonym text_table = "(string \<times> string list) list"

type_synonym column = "dtype \<times> scalar list"

type_synonym frame = "(string \<times> column) list"

definition na_values :: "string list" where
  "na_values = [[], ''#N/A'', ''#N/A N/A'', ''#NA'', ''-1.#IND'', ''-1.#QNAN'', ''-NaN'',
     ''-nan'', ''1.#IND'', ''1.#QNAN'', ''<NA>'', ''N/A'', ''NA'', ''NULL'', ''NaN'', ''n/a'',
     ''nan'', ''null'']"

definition is_na :: "string \<Rightarrow> bool" where
  "is_na s = (s \<in> set na_values)"

definition digit :: "char \<Rightarrow> nat option" where
  "digit c = map_of [(CHR ''0'', 0), (CHR ''1'', 1), (CHR ''2'', 2), (CHR ''3'', 3),
     (CHR ''4'', 4), (CHR ''5'', 5), (CHR ''6'', 6), (CHR ''7'', 7), (CHR ''8'', 8),
     (CHR ''9'', 9)] c"

fun digits_value :: "nat \<Rightarrow> string \<Rightarrow> nat option" where
  "digits_value n [] = Some n"
| "digits_value n (c # cs) =
     (case digit c of None \<Rightarrow> None | Some d \<Rightarrow> digits_value (10 * n + d) cs)"

definition nat_literal :: "string \<Rightarrow> nat option" where
  "nat_literal s = (if s = [] then None else digits_value 0 s)"

definition signed_literal :: "string \<Rightarrow> int option" where
  "signed_literal s =
     (case s of
        [] \<Rightarrow> None
      | c # cs \<Rightarrow>
          if c = CHR ''-'' then map_option (\<lambda>n. - int n) (nat_literal cs)
          else if c = CHR ''+'' then map_option int (nat_literal cs)
          else map_option int (nat_literal s))"

definition int_literal :: "string \<Rightarrow> int option" where
  "int_literal s =
     (case signed_literal s of
        None \<Rightarrow> None
      | Some n \<Rightarrow> if - (2 ^ 63) \<le> n \<and> n < 2 ^ 63 then Some n else None)"

definition float_literal :: "(string \<Rightarrow> real option) \<Rightarrow> string \<Rightarrow> real option" where
  "float_literal parse_float s =
     (case int_literal s of Some n \<Rightarrow> Some (real_of_int n) | None \<Rightarrow> parse_float s)"

definition bool_literal :: "string \<Rightarrow> bool option" where
  "bool_literal s =
     (if s \<in> set [''True'', ''TRUE'', ''true''] then Some True
      else if s \<in> set [''False'', ''FALSE'', ''false''] then Some False
      else None)"

definition convert_object :: "string list \<Rightarrow> column" where
  "convert_object texts = (Object_dtype, map (\<lambda>s. if is_na s then NA else Obj s) texts)"

definition convert_inferred :: "(string \<Rightarrow> real option) \<Rightarrow> string list \<Rightarrow> column" where
  "convert_inferred parse_float texts =
     (let present = filter (\<lambda>s. \<not> is_na s) texts
      in if texts = [] then (Object_dtype, [])
         else if list_all (\<lambda>s. int_literal s \<noteq> None) present then
           (if present = texts
            then (Int64_dtype,
                  map (\<lambda>s. case int_literal s of Some n \<Rightarrow> I64 n | None \<Rightarrow> NA) texts)
            else (Float64_dtype,
                  map (\<lambda>s. case int_literal s of Some n \<Rightarrow> F64 (real_of_int n) | None \<Rightarrow> NA)
                    texts))
         else if list_all (\<lambda>s. float_literal parse_float s \<noteq> None) present then
           (Float64_dtype,
            map (\<lambda>s. if is_na s then NA
                      else (case float_literal parse_float s of Some x \<Rightarrow> F64 x | None \<Rightarrow> NA))
              texts)
         else if list_all (\<lambda>s. bool_literal s \<noteq> None) present then
           (if present = texts then Bool_dtype else Object_dtype,
            map (\<lambda>s. case bool_literal s of Some b \<Rightarrow> Bool b | None \<Rightarrow> NA) texts)
         else convert_object texts)"

text \<open>
  The two readers request no dtype other than \<^verbatim>\<open>object\<close>; the conversion that a request
  for another dtype would force is not modelled, such a column is converted by inference.
\<close>

definition read_csv ::
  "(string \<Rightarrow> real option) \<Rightarrow> (string \<times> dtype) list \<Rightarrow> text_table \<Rightarrow> frame" where
  "read_csv parse_float dtype file =
     map (\<lambda>(name, texts).
            (name, if map_of dtype name = Some Object_dtype then convert_object texts
                   else convert_inferred parse_float texts)) file"

definition read_processed_variants :: "(string \<Rightarrow> real option) \<Rightarrow> text_table \<Rightarrow> frame" where
  "read_processed_variants parse_float fp =
     read_csv parse_float [(''transcript'', Object_dtype)] fp"

definition read_processed_genes :: "(string \<Rightarrow> real option) \<Rightarrow> text_table \<Rightarrow> frame" where
  "read_processed_genes parse_float fp = read_csv parse_float [] fp"

text \<open>The dtype and the cells of a column of a frame.\<close>

definition column_of :: "frame \<Rightarrow> string \<Rightarrow> column option" where
  "column_of df name = map_of df name"

section \<open>The drivers\<close>

text \<open>
  The drivers compute no table themselves. The readers and \<^verbatim>\<open>annotate_variants\<close> return
  lazy dask frames, and \<^verbatim>\<open>client.submit\<close> returns a future for a task that some worker
  runs later. So a driver builds a graph of calls and hands tasks to the client; what it
  returns is a dictionary of futures. A lazy frame and a future are modelled as the term
  of the call that made them; the client records what it was given, in order. The file
  paths and the chromosome list come from the module \<^verbatim>\<open>globe\<close>, which is not part of the
  sources at hand: they are parameters. The labels of the list are taken to be text, as
  the literal \<^verbatim>\<open>'3'\<close> is with which the loop compares them.
\<close>

type_synonym path = string

datatype ddf =
    Read_processed_variants path
  | Read_processed_genes path
  | Annotate_variants ddf ddf
  | Isolate_annotated_variants ddf
  | Isolate_intergenic_variants ddf

datatype future =
    Save_distributed_dataframe ddf
  | Consolidate_separate_partitions future path
  | Collect_annotation_stats ddf
  | Write_annotation_stats future path

record client =
  persisted :: "ddf list"
  scattered :: "ddf list"
  submitted :: "future list"

definition persist :: "ddf \<Rightarrow> client \<Rightarrow> ddf \<times> client" where
  "persist df c = (df, c\<lparr>persisted := persisted c @ [df]\<rparr>)"

definition scatter :: "ddf \<Rightarrow> client \<Rightarrow> ddf \<times> client" where
  "scatter df c = (df, c\<lparr>scattered := scattered c @ [df]\<rparr>)"

definition submit :: "future \<Rightarrow> client \<Rightarrow> future \<times> client" where
  "submit task c = (task, c\<lparr>submitted := submitted c @ [task]\<rparr>)"

text \<open>\<^verbatim>\<open>Path(dir, name)\<close>.\<close>

definition Path :: "path \<Rightarrow> string \<Rightarrow> path" where
  "Path dir name = dir @ ''/'' @ name"

record hg38_args =
  variant_dir :: path
  gene_fp :: path
  annotated_dir :: path
  intergenic_dir :: path
  stats_fp :: path

text \<open>The local variables of \<^verbatim>\<open>run_hg38_annotations\<close> that outlive an iteration.\<close>

record hg38_state =
  annotated :: "future list"
  intergenic :: "future list"
  stats :: "future list"
  the_client :: client
  logged :: "string list"

text \<open>One iteration of the loop, up to the test for the \<^verbatim>\<open>break\<close>.\<close>

definition hg38_iteration :: "hg38_args \<Rightarrow> string \<Rightarrow> hg38_state \<Rightarrow> hg38_state" where
  "hg38_iteration args chrom s =
     (let logged' = logged s @ [''Starting chromosome '' @ chrom @ '' work''];
          variant_fp = Path (variant_dir args) (''chromosome-'' @ chrom @ ''.tsv'');
          annotated_fp = Path (annotated_dir args) (''annotated-chromosome-'' @ chrom @ ''.tsv'');
          intergenic_fp = Path (intergenic_dir args) (''intergenic-chromosome-'' @ chrom @ ''.tsv'');
          vdf = Read_processed_variants variant_fp;
          gdf = Read_processed_genes (gene_fp args);
          adf = Annotate_variants vdf gdf;
          (adf, c) = persist adf (the_client s);
          (ndf, c) = persist (Isolate_annotated_variants adf) c;
          (idf, c) = persist (Isolate_intergenic_variants adf) c;
          (sc_adf, c) = scatter adf c;
          (sc_ndf, c) = scatter ndf c;
          (sc_idf, c) = scatter idf c;
          (annotated_tmp, c) = submit (Save_distributed_dataframe sc_ndf) c;
          (intergenic_tmp, c) = submit (Save_distributed_dataframe sc_idf) c;
          (annotated_fut, c) = submit (Consolidate_separate_partitions annotated_tmp annotated_fp) c;
          (intergenic_fut, c) = submit (Consolidate_separate_partitions intergenic_tmp intergenic_fp) c
      in s\<lparr>annotated := annotated s @ [annotated_fut],
            intergenic := intergenic s @ [intergenic_fut],
            the_client := c, logged := logged'\<rparr>)"

text \<open>The \<^verbatim>\<open>for\<close> loop over the chromosome list, with its \<^verbatim>\<open>break\<close>.\<close>

fun hg38_loop :: "hg38_args \<Rightarrow> string list \<Rightarrow> hg38_state \<Rightarrow> hg38_state" where
  "hg38_loop args [] s = s"
| "hg38_loop args (chrom # chroms) s =
     (let s' = hg38_iteration args chrom s
      in if chrom = ''3'' then s' else hg38_loop args chroms s')"

text \<open>
  The driver returns its dictionary; the state at the end of the loop is returned with
  it, since the client in it is what the run leaves behind.
\<close>

definition run_hg38_annotations ::
  "string list \<Rightarrow> client \<Rightarrow> hg38_args \<Rightarrow> (string \<times> future list) list \<times> hg38_state" where
  "run_hg38_annotations var_human_chromosomes c args =
     (let s = \<lparr>annotated = [], intergenic = [], stats = [], the_client = c, logged = []\<rparr>;
          s = hg38_loop args var_human_chromosomes s
      in ([(''annotated'', annotated s), (''intergenic'', intergenic s)], s))"

record mm10_args =
  mm10_variant_fp :: path
  mm10_gene_fp :: path
  mm10_annotated_fp :: path
  mm10_intergenic_fp :: path
  mm10_stats_fp :: path

definition run_mm10_annotations :: "client \<Rightarrow> mm10_args \<Rightarrow> (string \<times> future) list \<times> client" where
  "run_mm10_annotations c args =
     (let vdf = Read_processed_variants (mm10_variant_fp args);
          gdf = Read_processed_genes (mm10_gene_fp args);
          adf = Annotate_variants vdf gdf;
          (adf, c) = persist adf c;
          (idf, c) = persist (Isolate_intergenic_variants adf) c;
          (ndf, c) = persist (Isolate_annotated_variants adf) c;
          (sc_adf, c) = scatter adf c;
          (sc_idf, c) = scatter idf c;
          (sc_ndf, c) = scatter ndf c;
          (annotated_tmp, c) = submit (Save_distributed_dataframe sc_ndf) c;
          (intergenic_tmp, c) = submit (Save_distributed_dataframe sc_idf) c;
          (annotated_fut, c) =
             submit (Consolidate_separate_partitions annotated_tmp (mm10_annotated_fp args)) c;
          (intergenic_fut, c) =
             submit (Consolidate_separate_partitions intergenic_tmp (mm10_intergenic_fp args)) c;
          (annotation_stats, c) = submit (Collect_annotation_stats sc_adf) c;
          (stats_fut, c) = submit (Write_annotation_stats annotation_stats (mm10_stats_fp args)) c
      in ([(''annotated'', annotated_fut), (''intergenic'', intergenic_fut),
           (''stats'', stats_fut)], c))"

text \<open>The tasks that compute or write the statistics.\<close>

fun is_stats_task :: "future \<Rightarrow> bool" where
  "is_stats_task (Collect_annotation_stats _) = True"
| "is_stats_task (Write_annotation_stats _ _) = True"
| "is_stats_task (Save_distributed_dataframe _) = False"
| "is_stats_task (Consolidate_separate_partitions t _) = is_stats_task t"

text \<open>The file a task writes at a path that the driver gives it, if any.\<close>

fun written_path :: "future \<Rightarrow> path option" where
  "written_path (Consolidate_separate_partitions _ p) = Some p"
| "written_path (Write_annotation_stats _ p) = Some p"
| "written_path (Save_distributed_dataframe _) = None"
| "written_path (Collect_annotation_stats _) = None"

text \<open>The chromosomes an iteration is run for: the list up to and with the first \<^verbatim>\<open>3\<close>.\<close>

fun processed :: "string list \<Rightarrow> string list" where
  "processed [] = []"
| "processed (chrom # chroms) = (if chrom = ''3'' then [chrom] else chrom # processed chroms)"

text \<open>The two futures that an iteration appends for its chromosome.\<close>

definition annotated_future :: "hg38_args \<Rightarrow> string \<Rightarrow> future" where
  "annotated_future args chrom =
     Consolidate_separate_partitions
       (Save_distributed_dataframe
          (Isolate_annotated_variants
             (Annotate_variants
                (Read_processed_variants (Path (variant_dir args) (''chromosome-'' @ chrom @ ''.tsv'')))
                (Read_processed_genes (gene_fp args)))))
       (Path (annotated_dir args) (''annotated-chromosome-'' @ chrom @ ''.tsv''))"

definition intergenic_future :: "hg38_args \<Rightarrow> string \<Rightarrow> future" where
  "intergenic_future args chrom =
     Consolidate_separate_partitions
       (Save_distributed_dataframe
          (Isolate_intergenic_variants
             (Annotate_variants
                (Read_processed_variants (Path (variant_dir args) (''chromosome-'' @ chrom @ ''.tsv'')))
                (Read_processed_genes (gene_fp args)))))
       (Path (intergenic_dir args) (''intergenic-chromosome-'' @ chrom @ ''.tsv''))"

text \<open>The message an iteration logs, and the four tasks it submits, in order.\<close>

definition start_message :: "string \<Rightarrow> string" where
  "start_message chrom = ''Starting chromosome '' @ chrom @ '' work''"

definition annotated_frame :: "hg38_args \<Rightarrow> string \<Rightarrow> ddf" where
  "annotated_frame args chrom =
     Annotate_variants
       (Read_processed_variants (Path (variant_dir args) (''chromosome-'' @ chrom @ ''.tsv'')))
       (Read_processed_genes (gene_fp args))"

definition tasks :: "hg38_args \<Rightarrow> string \<Rightarrow> future list" where
  "tasks args chrom =
     [Save_distributed_dataframe (Isolate_annotated_variants (annotated_frame args chrom)),
      Save_distributed_dataframe (Isolate_intergenic_variants (annotated_frame args chrom)),
      annotated_future args chrom, intergenic_future args chrom]"

section \<open>Example tables\<close>




text \<open>
  One variant with the same effect in two transcripts \<^verbatim>\<open>T1\<close> and \<^verbatim>\<open>T2\<close> of one gene:
  two rows of the variant table, and a gene table with one row for each transcript.
\<close>

definition transcript1_variant :: "string variant_row" where
  "transcript1_variant =
     \<lparr>v_chromosome = Some ''1'', v_rsid = Some ''rs1'', v_start = Some 100, v_end = Some 100,
      v_observed = Some ''A/G'', v_maf = None, v_effect = Some ''missense'',
      v_transcript = Some ''T1''\<rparr>"

definition transcript2_variant :: "string variant_row" where
  "transcript2_variant =
     \<lparr>v_chromosome = Some ''1'', v_rsid = Some ''rs1'', v_start = Some 100, v_end = Some 100,
      v_observed = Some ''A/G'', v_maf = None, v_effect = Some ''missense'',
      v_transcript = Some ''T2''\<rparr>"

definition two_transcript_genes :: gene_frame where
  "two_transcript_genes =
     \<lparr>transcript_id_dtype = Object_dtype,
      gene_rows =
         [\<lparr>g_transcript_id = Obj ''T1'', g_gene_id = Some ''G1'', g_gene_name = Some ''X'',
           g_biotype = Some ''protein_coding'', g_chromosome = Obj ''1''\<rparr>,
          \<lparr>g_transcript_id = Obj ''T2'', g_gene_id = Some ''G1'', g_gene_name = Some ''X'',
           g_biotype = Some ''protein_coding'', g_chromosome = Obj ''1''\<rparr>]\<rparr>"

text \<open>
  A variant table with a mapped variant, a variant whose transcript is in no gene row, an
  intergenic variant, and an intergenic variant whose \<^verbatim>\<open>rsid\<close> field is empty; the gene
  table lists the gene on another chromosome than the variant, to tell the two chromosome
  columns apart.
\<close>

definition mixed_variants :: "string variant_row list" where
  "mixed_variants =
     [\<lparr>v_chromosome = Some ''1'', v_rsid = Some ''rs2'', v_start = Some 10, v_end = Some 10,
       v_observed = Some ''C/T'', v_maf = None, v_effect = Some ''missense'',
       v_transcript = Some ''T1''\<rparr>,
      \<lparr>v_chromosome = Some ''1'', v_rsid = Some ''rs3'', v_start = Some 20, v_end = Some 20,
       v_observed = Some ''C/T'', v_maf = None, v_effect = Some ''missense'',
       v_transcript = Some ''T404''\<rparr>,
      \<lparr>v_chromosome = Some ''2'', v_rsid = Some ''rs1'', v_start = Some 30, v_end = Some 30,
       v_observed = Some ''G/A'', v_maf = None, v_effect = Some ''intergenic'',
       v_transcript = None\<rparr>,
      \<lparr>v_chromosome = Some ''2'', v_rsid = None, v_start = Some 40, v_end = Some 40,
       v_observed = Some ''G/A'', v_maf = None, v_effect = Some ''intergenic'',
       v_transcript = None\<rparr>]"

definition mixed_genes :: gene_frame where
  "mixed_genes =
     \<lparr>transcript_id_dtype = Object_dtype,
      gene_rows =
         [\<lparr>g_transcript_id = Obj ''T1'', g_gene_id = Some ''G1'', g_gene_name = Some ''X'',
           g_biotype = Some ''protein_coding'', g_chromosome = Obj ''7''\<rparr>]\<rparr>"

definition mixed_annotated :: "string annotated_row list" where
  "mixed_annotated =
     [\<lparr>a_chromosome = Some ''1'', a_rsid = Some ''rs2'', a_variant_effect = Some ''missense'',
       a_transcript = Some ''T1'', a_gene_id = Some ''G1'', a_gene_name = Some ''X'',
       a_gene_biotype = Some ''protein_coding''\<rparr>,
          \<lparr>a_chromosome = Some ''1'', a_rsid = Some ''rs3'', a_variant_effect = Some ''missense'',
       a_transcript = Some ''T404'', a_gene_id = None, a_gene_name = None,
       a_gene_biotype = None\<rparr>,
          \<lparr>a_chromosome = Some ''2'', a_rsid = Some ''rs1'', a_variant_effect = Some ''intergenic'',
       a_transcript = None, a_gene_id = None, a_gene_name = None, a_gene_biotype = None\<rparr>,
          \<lparr>a_chromosome = Some ''2'', a_rsid = None, a_variant_effect = Some ''intergenic'',
       a_transcript = None, a_gene_id = None, a_gene_name = None, a_gene_biotype = None\<rparr>]"

text \<open>One intergenic variant on chromosome 1 whose \<^verbatim>\<open>rsid\<close> field is empty.\<close>

definition unnamed_variants :: "string variant_row list" where
  "unnamed_variants =
     [\<lparr>v_chromosome = Some ''1'', v_rsid = None, v_start = Some 5, v_end = Some 5,
       v_observed = Some ''A/T'', v_maf = None, v_effect = Some ''intergenic'',
       v_transcript = None\<rparr>]"

definition unnamed_annotated :: "string annotated_row list" where
  "unnamed_annotated =
     [\<lparr>a_chromosome = Some ''1'', a_rsid = None, a_variant_effect = Some ''intergenic'',
       a_transcript = None, a_gene_id = None, a_gene_name = None, a_gene_biotype = None\<rparr>]"


text \<open>The rows that the two variant rows of the second example give.\<close>

definition transcript1_annotated :: "string annotated_row" where
  "transcript1_annotated =
     \<lparr>a_chromosome = Some ''1'', a_rsid = Some ''rs1'', a_variant_effect = Some ''missense'',
      a_transcript = Some ''T1'', a_gene_id = Some ''G1'', a_gene_name = Some ''X'',
      a_gene_biotype = Some ''protein_coding''\<rparr>"

definition transcript2_annotated :: "string annotated_row" where
  "transcript2_annotated =
     \<lparr>a_chromosome = Some ''1'', a_rsid = Some ''rs1'', a_variant_effect = Some ''missense'',
      a_transcript = Some ''T2'', a_gene_id = Some ''G1'', a_gene_name = Some ''X'',
      a_gene_biotype = Some ''protein_coding''\<rparr>"

text \<open>A gene frame with no row, its key column of text.\<close>

definition no_genes :: gene_frame where
  "no_genes = \<lparr>transcript_id_dtype = Object_dtype, gene_rows = []\<rparr>"

text \<open>
  A gene file and a variant file whose transcript identifiers are written with digits
  only, as they stand after the splitting into columns.
\<close>

definition numeric_gene_file :: text_table where
  "numeric_gene_file =
     [(''transcript_id'', [''007'']), (''gene_id'', [''G1'']), (''gene_name'', [''X'']),
      (''biotype'', [''protein_coding'']), (''chromosome'', [''X''])]"

definition numeric_variant_file :: text_table where
  "numeric_variant_file =
     [(''chromosome'', [''X'']), (''rsid'', [''rs9'']), (''effect'', [''missense'']),
      (''transcript'', [''007''])]"

text \<open>The chromosomes of the human genome, in their usual order.\<close>

definition human_chromosomes :: "string list" where
  "human_chromosomes =
     [''1'', ''2'', ''3'', ''4'', ''5'', ''6''] @
     [''7'', ''8'', ''9'', ''10'', ''11'', ''12''] @
     [''13'', ''14'', ''15'', ''16'', ''17'', ''18''] @
     [''19'', ''20'', ''21'', ''22'', ''X'', ''Y'']"

definition example_args :: hg38_args where
  "example_args =
     \<lparr>variant_dir = ''variant'', gene_fp = ''genes.tsv'', annotated_dir = ''annotated'',
      intergenic_dir = ''annotated'', stats_fp = ''stats.tsv''\<rparr>"

definition new_client :: client where
  "new_client = \<lparr>persisted = [], scattered = [], submitted = []\<rparr>"

section \<open>Deduplication\<close>

lemma drop_seen_in: "r \<in> set (drop_seen seen key rs) \<Longrightarrow> r \<in> set rs"
  by (induction rs arbitrary: seen) (auto split: if_splits)



lemma drop_seen_keys: "key ` set (drop_seen seen key rs) = key ` set rs - set seen"
  by (induction rs arbitrary: seen) auto

lemma drop_seen_idem: "drop_seen seen key (drop_seen seen key rs) = drop_seen seen key rs"
proof (induction rs arbitrary: seen)
  case Nil
  show ?case by simp
next
  case (Cons r rs)
  show ?case
  proof (cases "key r \<in> set seen")
    case True
    then show ?thesis using Cons.IH by simp
  next
    case False
    have "drop_seen (key r # seen) key (drop_seen (key r # seen) key rs)
        = drop_seen (key r # seen) key rs"
      by (rule Cons.IH)
    with False show ?thesis by simp
  qed
qed


text \<open>
  Claim C8. The deduplication on the key (rsid, variant\_effect, gene\_id) with keep-first
  is idempotent: on every frame, applying it twice gives the same frame as applying it
  once.
\<close>

theorem drop_duplicates_idempotent:
  "drop_duplicates subset_cols (drop_duplicates subset_cols df) = drop_duplicates subset_cols df"
  unfolding drop_duplicates_def by (rule drop_seen_idem)


section \<open>The possible results of the merge\<close>

lemma inserts_mset: "ys \<in> set (inserts x zs) \<Longrightarrow> mset ys = add_mset x (mset zs)"
  by (induction zs arbitrary: ys) auto

lemma orders_mset: "ys \<in> set (orders xs) \<Longrightarrow> mset ys = mset xs"
  by (induction xs arbitrary: ys) (auto dest: inserts_mset)

lemma inserts_middle: "as @ x # bs \<in> set (inserts x (as @ bs))"
  by (induction as) (auto, (cases bs; simp))

lemma orders_complete: "mset ys = mset xs \<Longrightarrow> ys \<in> set (orders xs)"
proof (induction xs arbitrary: ys)
  case Nil
  then show ?case by simp
next
  case (Cons x xs)
  then have "x \<in> set ys" by (metis list.set_intros(1) mset_eq_setD)
  then obtain as bs where ys: "ys = as @ x # bs" by (auto dest: split_list)
  with Cons.prems have "mset (as @ bs) = mset xs" by simp
  then have "as @ bs \<in> set (orders xs)" by (rule Cons.IH)
  with inserts_middle [of as x bs] show ?case unfolding ys by auto
qed

lemma orders_iff: "ys \<in> set (orders xs) \<longleftrightarrow> mset ys = mset xs"
  by (auto intro: orders_complete dest: orders_mset)

lemma orders_not_empty: "orders xs \<noteq> []"
  using orders_complete [of xs xs] by auto

section \<open>The annotated frame\<close>

lemma subset_cols_key: "annotated_key (select_columns r) = subset_cols r"
  by (simp add: annotated_key_def select_columns_def subset_cols_def)

lemma subset_cols_join:
  "subset_cols (rename_columns m) = (m_rsid m, m_effect m, m_gene_id m)"
  by (simp add: subset_cols_def rename_columns_def)

lemma annotation_join: "select_columns (rename_columns (join_row v g)) = annotation v g"
  by (simp add: select_columns_def rename_columns_def join_row_def annotation_def)

lemma annotate_merged_keys:
  "map annotated_key (annotate_merged df)
     = map subset_cols (drop_duplicates subset_cols (map rename_columns df))"
  by (simp add: annotate_merged_def subset_cols_key comp_def)


lemma annotate_merged_key_set:
  "set (map annotated_key (annotate_merged df))
     = set (map (\<lambda>m. (m_rsid m, m_effect m, m_gene_id m)) df)"
proof -
  have "set (map annotated_key (annotate_merged df))
      = subset_cols ` set (drop_seen [] subset_cols (map rename_columns df))"
    by (simp add: annotate_merged_keys drop_duplicates_def)
  also have "\<dots> = subset_cols ` set (map rename_columns df)"
    by (simp only: drop_seen_keys) simp
  also have "\<dots> = set (map (\<lambda>m. (m_rsid m, m_effect m, m_gene_id m)) df)"
    by (simp add: image_image subset_cols_join)
  finally show ?thesis .
qed

lemma annotate_merged_rows:
  "a \<in> set (annotate_merged df) \<Longrightarrow> \<exists>m \<in> set df. a = select_columns (rename_columns m)"
  by (auto simp: annotate_merged_def drop_duplicates_def dest!: drop_seen_in)


lemma annotate_variants_outcome:
  assumes "annotate_variants vdf gdf = Inr outs" and "out \<in> set outs"
  shows "\<exists>df. mset df = mset (left_join vdf (gene_rows gdf)) \<and> out = annotate_merged df"
proof -
  from assms have "out \<in> annotate_merged ` set (orders (left_join vdf (gene_rows gdf)))"
    by (auto simp: annotate_variants_def merge_def split: if_splits)
  then show ?thesis by (auto simp: orders_iff)
qed

lemma annotate_variants_raises:
  "annotate_variants vdf gdf =
     (if transcript_id_dtype gdf \<in> {Int64_dtype, Float64_dtype} then Inl ValueError
      else Inr (map annotate_merged (orders (left_join vdf (gene_rows gdf)))))"
  by (simp add: annotate_variants_def merge_def)

lemma left_join_rows:
  "set (left_join vdf gdf) = {join_row v g | v g. v \<in> set vdf \<and> g \<in> set (matches v gdf)}"
  by (auto simp: left_join_def)

lemma matches_iff:
  "g \<in> set (matches v gdf) \<longleftrightarrow>
     (g \<in> set gdf \<and> g_transcript_id g = transcript_key v) \<or>
     ((\<forall>g' \<in> set gdf. g_transcript_id g' \<noteq> transcript_key v) \<and> g = null_gene)"
proof (cases "partners v gdf")
  case Nil
  then have "\<forall>g' \<in> set gdf. g_transcript_id g' \<noteq> transcript_key v"
    by (simp add: partners_def filter_empty_conv)
  with Nil show ?thesis by (auto simp: matches_def)
next
  case (Cons p ps)
  then have "p \<in> set (partners v gdf)" by simp
  then have "p \<in> set gdf \<and> g_transcript_id p = transcript_key v"
    by (simp add: partners_def)
  moreover have "matches v gdf = partners v gdf"
    using Cons by (simp add: matches_def)
  then have "g \<in> set (matches v gdf) \<longleftrightarrow> g \<in> set gdf \<and> g_transcript_id g = transcript_key v"
    by (simp add: partners_def)
  ultimately show ?thesis by auto
qed

lemmas example_defs = annotate_variants_def merge_def left_join_def matches_def partners_def
  transcript_key_def join_row_def null_gene_def annotate_merged_def rename_columns_def
  drop_duplicates_def subset_cols_def select_columns_def


lemma two_transcript_result:
  "annotate_variants [transcript1_variant, transcript2_variant] two_transcript_genes
     = Inr [[transcript1_annotated], [transcript2_annotated]]"
  by (simp add: example_defs transcript1_variant_def transcript2_variant_def
      two_transcript_genes_def transcript1_annotated_def transcript2_annotated_def)

lemma unnamed_result: "annotate_variants unnamed_variants no_genes = Inr [unnamed_annotated]"
  by (simp add: example_defs unnamed_variants_def no_genes_def unnamed_annotated_def)





text \<open>
  The example of one variant with the same effect in two transcripts of one gene. The two
  variant rows are joined with one gene row each, and both join rows have the triple
  (\<^verbatim>\<open>rs1\<close>, \<^verbatim>\<open>missense\<close>, \<^verbatim>\<open>G1\<close>). Every admitted result has one row only: either the
  variant row of \<^verbatim>\<open>T1\<close> or the variant row of \<^verbatim>\<open>T2\<close> does not appear in it.
\<close>

theorem variant_row_dropped:
  "annotate_variants [transcript1_variant, transcript2_variant] two_transcript_genes
     = Inr [[transcript1_annotated], [transcript2_annotated]] \<and>
   a_transcript transcript1_annotated = v_transcript transcript1_variant \<and>
   a_transcript transcript2_annotated = v_transcript transcript2_variant \<and>
   v_transcript transcript1_variant = Some ''T1'' \<and>
   v_transcript transcript2_variant = Some ''T2''"
  by (simp add: two_transcript_result)
    (simp add: transcript1_annotated_def transcript2_annotated_def transcript1_variant_def
      transcript2_variant_def)

lemma outcome_rows:
  assumes "annotate_variants vdf gdf = Inr outs" and "out \<in> set outs"
  shows "set (map annotated_key out)
       = {(v_rsid v, v_effect v, g_gene_id g) | v g.
            v \<in> set vdf \<and> g \<in> set (matches v (gene_rows gdf))}"
    and "set out \<subseteq> {annotation v g | v g. v \<in> set vdf \<and> g \<in> set (matches v (gene_rows gdf))}"
proof -
  from assms obtain df where df: "mset df = mset (left_join vdf (gene_rows gdf))"
    and out: "out = annotate_merged df"
    by (auto dest: annotate_variants_outcome)
  from df have rows: "set df = set (left_join vdf (gene_rows gdf))" by (rule mset_eq_setD)
  show "set (map annotated_key out)
       = {(v_rsid v, v_effect v, g_gene_id g) | v g.
            v \<in> set vdf \<and> g \<in> set (matches v (gene_rows gdf))}"
  proof (intro set_eqI iffI)
    fix k
    assume "k \<in> set (map annotated_key out)"
    then obtain m where "m \<in> set (left_join vdf (gene_rows gdf))"
      and k: "k = (m_rsid m, m_effect m, m_gene_id m)"
      unfolding out annotate_merged_key_set by (auto simp: rows)
    then obtain v g where "v \<in> set vdf" and "g \<in> set (matches v (gene_rows gdf))"
      and "m = join_row v g"
      by (auto simp: left_join_rows)
    then show "k \<in> {(v_rsid v, v_effect v, g_gene_id g) | v g.
        v \<in> set vdf \<and> g \<in> set (matches v (gene_rows gdf))}"
      by (auto simp: k join_row_def)
  next
    fix k
    assume "k \<in> {(v_rsid v, v_effect v, g_gene_id g) | v g.
        v \<in> set vdf \<and> g \<in> set (matches v (gene_rows gdf))}"
    then obtain v g where "v \<in> set vdf" and "g \<in> set (matches v (gene_rows gdf))"
      and k: "k = (v_rsid v, v_effect v, g_gene_id g)"
      by blast
    then have "join_row v g \<in> set df" by (auto simp: rows left_join_rows)
    moreover have "k = (m_rsid (join_row v g), m_effect (join_row v g), m_gene_id (join_row v g))"
      by (simp add: k join_row_def)
    ultimately show "k \<in> set (map annotated_key out)"
      unfolding out annotate_merged_key_set by (simp only: set_map) (rule image_eqI, auto)
  qed
  show "set out \<subseteq> {annotation v g | v g. v \<in> set vdf \<and> g \<in> set (matches v (gene_rows gdf))}"
  proof
    fix a
    assume "a \<in> set out"
    then obtain m where "m \<in> set df" and a: "a = select_columns (rename_columns m)"
      unfolding out by (auto dest: annotate_merged_rows)
    then obtain v g where "v \<in> set vdf" and "g \<in> set (matches v (gene_rows gdf))"
      and "m = join_row v g"
      by (auto simp: rows left_join_rows)
    then show "a \<in> {annotation v g | v g. v \<in> set vdf \<and> g \<in> set (matches v (gene_rows gdf))}"
      by (auto simp: a annotation_join)
  qed
qed

lemma annotated_columns_trace:
  "annotate_variants_columns variant_columns gene_columns =
     Inr [''chromosome'', ''rsid'', ''variant_effect'', ''transcript'', ''gene_id'',
          ''gene_name'', ''gene_biotype'']"
  by (simp add: annotate_variants_columns_def merge_columns_def rename_def
      drop_duplicates_columns_def getitem_columns_def missing_columns_def variant_columns_def
      gene_columns_def)

text \<open>
  Claim C3, amended. When the \<^verbatim>\<open>transcript_id\<close> column of the gene table is \<^verbatim>\<open>int64\<close> or
  \<^verbatim>\<open>float64\<close>, \<^verbatim>\<open>annotate_variants\<close> raises \<^verbatim>\<open>ValueError\<close>. Otherwise it returns a frame,
  and that frame is the left outer join on transcript = transcript\_id, reduced to one row
  per triple (rsid, variant\_effect, gene\_id):
  \<^item> for every variant row and every gene row with its transcript, the frame has a row
    with the rsid and the effect of the variant row and the gene\_id of the gene row;
  \<^item> for every variant row whose transcript no gene row has, the frame has a row with the
    rsid and the effect of the variant row and a missing gene\_id (so unmapped and
    intergenic variants are kept);
  \<^item> every row of the frame is a variant row with its four columns chromosome, rsid,
    effect and transcript, the chromosome being that of the variant table, completed by
    gene\_id, gene\_name and biotype of a gene row with the same transcript, or by missing
    values when there is none.

  A variant row may itself be absent from the frame, when another row has its triple. The
  frame has exactly the seven columns chromosome, rsid, variant\_effect, transcript,
  gene\_id, gene\_name, gene\_biotype.
\<close>

theorem annotate_variants_left_join:
  "(transcript_id_dtype gdf \<in> {Int64_dtype, Float64_dtype} \<longrightarrow>
      annotate_variants vdf gdf = Inl ValueError) \<and>
   (transcript_id_dtype gdf \<notin> {Int64_dtype, Float64_dtype} \<longrightarrow>
      (\<exists>outs. annotate_variants vdf gdf = Inr outs \<and> outs \<noteq> [] \<and>
         (\<forall>out \<in> set outs.
            (\<forall>v \<in> set vdf. \<forall>g \<in> set (gene_rows gdf).
               g_transcript_id g = transcript_key v \<longrightarrow>
               (\<exists>a \<in> set out. a_rsid a = v_rsid v \<and> a_variant_effect a = v_effect v \<and>
                  a_gene_id a = g_gene_id g)) \<and>
            (\<forall>v \<in> set vdf.
               (\<forall>g \<in> set (gene_rows gdf). g_transcript_id g \<noteq> transcript_key v) \<longrightarrow>
               (\<exists>a \<in> set out. a_rsid a = v_rsid v \<and> a_variant_effect a = v_effect v \<and>
                  a_gene_id a = None)) \<and>
            (\<forall>a \<in> set out. \<exists>v \<in> set vdf.
               (\<exists>g \<in> set (gene_rows gdf).
                  g_transcript_id g = transcript_key v \<and> a = annotation v g) \<or>
               ((\<forall>g \<in> set (gene_rows gdf). g_transcript_id g \<noteq> transcript_key v) \<and>
                  a = annotation v null_gene))))) \<and>
   annotate_variants_columns variant_columns gene_columns =
     Inr [''chromosome'', ''rsid'', ''variant_effect'', ''transcript'', ''gene_id'',
          ''gene_name'', ''gene_biotype'']"
proof (intro conjI impI)
  assume "transcript_id_dtype gdf \<in> {Int64_dtype, Float64_dtype}"
  then show "annotate_variants vdf gdf = Inl ValueError"
    by (simp add: annotate_variants_raises)
next
  let ?outs = "map annotate_merged (orders (left_join vdf (gene_rows gdf)))"
  assume "transcript_id_dtype gdf \<notin> {Int64_dtype, Float64_dtype}"
  then have run: "annotate_variants vdf gdf = Inr ?outs"
    by (simp add: annotate_variants_raises)
  have "?outs \<noteq> []" by (simp add: orders_not_empty)
  moreover have "\<forall>out \<in> set ?outs.
      (\<forall>v \<in> set vdf. \<forall>g \<in> set (gene_rows gdf).
         g_transcript_id g = transcript_key v \<longrightarrow>
         (\<exists>a \<in> set out. a_rsid a = v_rsid v \<and> a_variant_effect a = v_effect v \<and>
            a_gene_id a = g_gene_id g)) \<and>
      (\<forall>v \<in> set vdf.
         (\<forall>g \<in> set (gene_rows gdf). g_transcript_id g \<noteq> transcript_key v) \<longrightarrow>
         (\<exists>a \<in> set out. a_rsid a = v_rsid v \<and> a_variant_effect a = v_effect v \<and>
            a_gene_id a = None)) \<and>
      (\<forall>a \<in> set out. \<exists>v \<in> set vdf.
         (\<exists>g \<in> set (gene_rows gdf).
            g_transcript_id g = transcript_key v \<and> a = annotation v g) \<or>
         ((\<forall>g \<in> set (gene_rows gdf). g_transcript_id g \<noteq> transcript_key v) \<and>
            a = annotation v null_gene))"
  proof (intro ballI conjI impI)
    fix out v g
    assume out: "out \<in> set ?outs" and v: "v \<in> set vdf" and g: "g \<in> set (gene_rows gdf)"
      and key: "g_transcript_id g = transcript_key v"
    then have "g \<in> set (matches v (gene_rows gdf))" by (simp add: matches_iff)
    with v have "(v_rsid v, v_effect v, g_gene_id g) \<in> set (map annotated_key out)"
      unfolding outcome_rows(1) [OF run out] by blast
    then show "\<exists>a \<in> set out. a_rsid a = v_rsid v \<and> a_variant_effect a = v_effect v \<and>
        a_gene_id a = g_gene_id g"
      by (auto simp: annotated_key_def)
  next
    fix out v
    assume out: "out \<in> set ?outs" and v: "v \<in> set vdf"
      and none: "\<forall>g \<in> set (gene_rows gdf). g_transcript_id g \<noteq> transcript_key v"
    then have "null_gene \<in> set (matches v (gene_rows gdf))" by (simp add: matches_iff)
    with v have "(v_rsid v, v_effect v, g_gene_id null_gene) \<in> set (map annotated_key out)"
      unfolding outcome_rows(1) [OF run out] by blast
    then show "\<exists>a \<in> set out. a_rsid a = v_rsid v \<and> a_variant_effect a = v_effect v \<and>
        a_gene_id a = None"
      by (auto simp: annotated_key_def null_gene_def)
  next
    fix out a
    assume out: "out \<in> set ?outs" and "a \<in> set out"
    with outcome_rows(2) [OF run out] obtain v g where v: "v \<in> set vdf"
      and g: "g \<in> set (matches v (gene_rows gdf))" and a: "a = annotation v g"
      by blast
    from g have "(g \<in> set (gene_rows gdf) \<and> g_transcript_id g = transcript_key v) \<or>
        ((\<forall>g' \<in> set (gene_rows gdf). g_transcript_id g' \<noteq> transcript_key v) \<and> g = null_gene)"
      by (simp only: matches_iff)
    with v a show "\<exists>v \<in> set vdf.
        (\<exists>g \<in> set (gene_rows gdf). g_transcript_id g = transcript_key v \<and> a = annotation v g) \<or>
        ((\<forall>g \<in> set (gene_rows gdf). g_transcript_id g \<noteq> transcript_key v) \<and>
           a = annotation v null_gene)"
      by blast
  qed
  ultimately show "\<exists>outs. annotate_variants vdf gdf = Inr outs \<and> outs \<noteq> [] \<and>
      (\<forall>out \<in> set outs.
         (\<forall>v \<in> set vdf. \<forall>g \<in> set (gene_rows gdf).
            g_transcript_id g = transcript_key v \<longrightarrow>
            (\<exists>a \<in> set out. a_rsid a = v_rsid v \<and> a_variant_effect a = v_effect v \<and>
               a_gene_id a = g_gene_id g)) \<and>
         (\<forall>v \<in> set vdf.
            (\<forall>g \<in> set (gene_rows gdf). g_transcript_id g \<noteq> transcript_key v) \<longrightarrow>
            (\<exists>a \<in> set out. a_rsid a = v_rsid v \<and> a_variant_effect a = v_effect v \<and>
               a_gene_id a = None)) \<and>
         (\<forall>a \<in> set out. \<exists>v \<in> set vdf.
            (\<exists>g \<in> set (gene_rows gdf).
               g_transcript_id g = transcript_key v \<and> a = annotation v g) \<or>
            ((\<forall>g \<in> set (gene_rows gdf). g_transcript_id g \<noteq> transcript_key v) \<and>
               a = annotation v null_gene)))"
    using run by blast
next
  show "annotate_variants_columns variant_columns gene_columns =
     Inr [''chromosome'', ''rsid'', ''variant_effect'', ''transcript'', ''gene_id'',
          ''gene_name'', ''gene_biotype'']"
    by (rule annotated_columns_trace)
qed

text \<open>
  The theorem at three inputs: the example of the two transcripts, where a gene row has
  the transcript of the first variant row; the variant with no gene row, which is kept
  with a missing gene\_id; and the gene table of the first input with an \<^verbatim>\<open>int64\<close> key
  column, where the call raises.
\<close>

theorem annotate_variants_left_join_witness:
  "transcript_id_dtype two_transcript_genes \<notin> {Int64_dtype, Float64_dtype} \<and>
   annotate_variants [transcript1_variant, transcript2_variant] two_transcript_genes
     = Inr [[transcript1_annotated], [transcript2_annotated]] \<and>
   transcript1_annotated
     = annotation transcript1_variant (hd (gene_rows two_transcript_genes)) \<and>
   g_transcript_id (hd (gene_rows two_transcript_genes)) = transcript_key transcript1_variant \<and>
   a_rsid transcript1_annotated = v_rsid transcript2_variant \<and>
   a_variant_effect transcript1_annotated = v_effect transcript2_variant \<and>
   annotate_variants unnamed_variants no_genes = Inr [unnamed_annotated] \<and>
   map a_gene_id unnamed_annotated = [None] \<and>
   transcript_id_dtype (two_transcript_genes\<lparr>transcript_id_dtype := Int64_dtype\<rparr>)
     \<in> {Int64_dtype, Float64_dtype} \<and>
   annotate_variants [transcript1_variant, transcript2_variant]
     (two_transcript_genes\<lparr>transcript_id_dtype := Int64_dtype\<rparr>) = Inl ValueError"
proof -
  have raises: "annotate_variants [transcript1_variant, transcript2_variant]
      (two_transcript_genes\<lparr>transcript_id_dtype := Int64_dtype\<rparr>) = Inl ValueError"
    using annotate_variants_left_join [of "two_transcript_genes\<lparr>transcript_id_dtype := Int64_dtype\<rparr>"
        "[transcript1_variant, transcript2_variant]"]
    by simp
  have text_key: "transcript_id_dtype two_transcript_genes \<notin> {Int64_dtype, Float64_dtype}"
    by (simp add: two_transcript_genes_def)
  with annotate_variants_left_join [of two_transcript_genes
      "[transcript1_variant, transcript2_variant]"]
  have "\<exists>outs. annotate_variants [transcript1_variant, transcript2_variant] two_transcript_genes
      = Inr outs \<and> outs \<noteq> []"
    by blast
  moreover have "transcript1_annotated
      = annotation transcript1_variant (hd (gene_rows two_transcript_genes)) \<and>
    g_transcript_id (hd (gene_rows two_transcript_genes)) = transcript_key transcript1_variant \<and>
    a_rsid transcript1_annotated = v_rsid transcript2_variant \<and>
    a_variant_effect transcript1_annotated = v_effect transcript2_variant \<and>
    map a_gene_id unnamed_annotated = [None]"
    by (simp add: transcript1_annotated_def annotation_def transcript1_variant_def
        transcript2_variant_def two_transcript_genes_def transcript_key_def
        unnamed_annotated_def)
  ultimately show ?thesis
    using raises text_key by (simp add: two_transcript_result unnamed_result)
qed


section \<open>The three selections\<close>

lemma three_way_length:
  "length (filter P (mapped_rows df)) + length (filter P (failed_rows df))
     + length (filter P (intergenic_rows df)) = length (filter P df)"
  by (induction df)
    (auto simp: mapped_rows_def failed_rows_def intergenic_rows_def is_intergenic_def
      is_not_intergenic_def is_mapped_def is_not_mapped_def)

lemma three_way_mset:
  "mset (intergenic_rows df) + mset (mapped_rows df) + mset (failed_rows df) = mset df"
  by (induction df)
    (auto simp: mapped_rows_def failed_rows_def intergenic_rows_def is_intergenic_def
      is_not_intergenic_def is_mapped_def is_not_mapped_def)

text \<open>
  Claim C1. For every annotated frame, so for every frame that \<^verbatim>\<open>annotate_variants\<close>
  returns: \<^verbatim>\<open>isolate_intergenic_variants\<close> keeps the rows with variant\_effect
  \<^verbatim>\<open>intergenic\<close>, \<^verbatim>\<open>isolate_annotated_variants\<close> keeps the rows with another
  variant\_effect and a gene\_id, the failed mappings are the rows with another
  variant\_effect and no gene\_id. Every row of the frame is in one of the three
  selections, as often as it is in the frame, and no row is in two of them.
\<close>

theorem three_selections_partition:
  "isolate_intergenic_variants df
     = map keep_intergenic (filter (\<lambda>r. a_variant_effect r = Some ''intergenic'') df) \<and>
   isolate_annotated_variants df
     = map keep_annotated
         (filter (\<lambda>r. a_variant_effect r \<noteq> Some ''intergenic'' \<and> a_gene_id r \<noteq> None) df) \<and>
   intergenic_rows df = filter (\<lambda>r. a_variant_effect r = Some ''intergenic'') df \<and>
   mapped_rows df
     = filter (\<lambda>r. a_variant_effect r \<noteq> Some ''intergenic'' \<and> a_gene_id r \<noteq> None) df \<and>
   failed_rows df
     = filter (\<lambda>r. a_variant_effect r \<noteq> Some ''intergenic'' \<and> a_gene_id r = None) df \<and>
   mset (intergenic_rows df) + mset (mapped_rows df) + mset (failed_rows df) = mset df \<and>
   set (intergenic_rows df) \<inter> set (mapped_rows df) = {} \<and>
   set (intergenic_rows df) \<inter> set (failed_rows df) = {} \<and>
   set (mapped_rows df) \<inter> set (failed_rows df) = {}"
proof -
  have i: "intergenic_rows df = filter (\<lambda>r. a_variant_effect r = Some ''intergenic'') df"
    by (simp add: intergenic_rows_def is_intergenic_def cong: filter_cong)
  have m: "mapped_rows df
      = filter (\<lambda>r. a_variant_effect r \<noteq> Some ''intergenic'' \<and> a_gene_id r \<noteq> None) df"
    by (simp add: mapped_rows_def is_not_intergenic_def is_mapped_def)
  have f: "failed_rows df
      = filter (\<lambda>r. a_variant_effect r \<noteq> Some ''intergenic'' \<and> a_gene_id r = None) df"
    by (simp add: failed_rows_def is_not_intergenic_def is_not_mapped_def)
  have "isolate_intergenic_variants df
      = map keep_intergenic (filter (\<lambda>r. a_variant_effect r = Some ''intergenic'') df)"
    by (simp only: isolate_intergenic_variants_def i)
  moreover have "isolate_annotated_variants df
      = map keep_annotated
          (filter (\<lambda>r. a_variant_effect r \<noteq> Some ''intergenic'' \<and> a_gene_id r \<noteq> None) df)"
    by (simp only: isolate_annotated_variants_def m)
  moreover have "set (intergenic_rows df) \<inter> set (mapped_rows df) = {}"
    unfolding i m by auto
  moreover have "set (intergenic_rows df) \<inter> set (failed_rows df) = {}"
    unfolding i f by auto
  moreover have "set (mapped_rows df) \<inter> set (failed_rows df) = {}"
    unfolding m f by auto
  ultimately show ?thesis using i m f three_way_mset [of df] by simp
qed

section \<open>The statistics frame\<close>

lemma set_map_filter_eq: "set (List.map_filter f xs) = {y. \<exists>x \<in> set xs. f x = Some y}"
  by (induction xs) (auto split: option.splits)

lemma group_keys_set: "set (group_keys df) = {c. Some c \<in> a_chromosome ` set df}"
  by (force simp: group_keys_def set_map_filter_eq image_iff)

lemma group_keys_rows_on: "set (group_keys df) = {c. rows_on df c \<noteq> []}"
  by (force simp: group_keys_set rows_on_def filter_empty_conv image_iff)

lemma group_keys_distinct: "distinct (group_keys df)"
  by (simp add: group_keys_def)

lemma group_keys_canonical: "group_keys df = sorted_list_of_set (set (group_keys df))"
proof -
  have "set (group_keys df) = set (List.map_filter a_chromosome df)"
    by (simp add: group_keys_def)
  then show ?thesis
    by (simp add: sorted_list_of_set_sort_remdups group_keys_def)
qed

lemma map_of_groupby:
  "map_of (groupby_count_rsid df) l =
     (if l \<in> set (group_keys df) then Some (count_rsid df l) else None)"
proof -
  have "map_of (map (\<lambda>c. (c, f c)) xs) l = (if l \<in> set xs then Some (f l) else None)"
    for f :: "'a \<Rightarrow> int" and xs
    by (induction xs) auto
  then show ?thesis by (simp add: groupby_count_rsid_def)
qed

lemma count_rsid_absent: "l \<notin> set (group_keys df) \<Longrightarrow> count_rsid df l = 0"
  by (auto simp: group_keys_set count_rsid_def filter_empty_conv image_iff)

lemma count_rsid_named: "count_rsid df c = int (length (named_rows (rows_on df c)))"
  by (simp add: count_rsid_def named_rows_def rows_on_def)

lemma named_unnamed: "length (named_rows df) + length (unnamed_rows df) = length df"
  by (induction df) (auto simp: named_rows_def unnamed_rows_def)

lemma count_rsid_sum:
  "count_rsid (mapped_rows df) c + count_rsid (failed_rows df) c
     + count_rsid (intergenic_rows df) c = int (length (named_rows (rows_on df c)))"
proof -
  let ?P = "\<lambda>r. a_chromosome r = Some c \<and> a_rsid r \<noteq> None"
  have "named_rows (rows_on df c) = filter ?P df"
    by (simp add: named_rows_def rows_on_def)
  with three_way_length [of ?P df] show ?thesis
    by (simp add: count_rsid_def)
qed

lemma group_keys_union:
  "set (group_keys (mapped_rows df)) \<union> set (group_keys (failed_rows df))
     \<union> set (group_keys (intergenic_rows df)) = set (group_keys df)"
proof -
  have "is_intergenic r \<or> (is_not_intergenic r \<and> is_mapped r)
      \<or> (is_not_intergenic r \<and> is_not_mapped r)" for r :: "'a annotated_row"
    by (auto simp: is_intergenic_def is_not_intergenic_def is_mapped_def is_not_mapped_def)
  then show ?thesis
    by (auto simp: group_keys_set mapped_rows_def failed_rows_def intergenic_rows_def image_iff)
qed

lemma union_index_groups:
  "union_index [groupby_count_rsid (mapped_rows df), groupby_count_rsid (failed_rows df),
      groupby_count_rsid (intergenic_rows df)] = group_keys df"
proof -
  let ?xs = "concat (map (map fst) [groupby_count_rsid (mapped_rows df),
      groupby_count_rsid (failed_rows df), groupby_count_rsid (intergenic_rows df)])"
  have fst_keys: "map fst (groupby_count_rsid d) = group_keys d" for d :: "'a annotated_row list"
    by (simp add: groupby_count_rsid_def comp_def)
  have "set ?xs = set (group_keys df)"
    using group_keys_union [of df] by (simp add: fst_keys Un_assoc)
  then have "sort (remdups ?xs) = sorted_list_of_set (set (group_keys df))"
    by (simp only: sorted_list_of_set_sort_remdups [symmetric])
  then show ?thesis
    unfolding union_index_def using group_keys_canonical [of df] by simp
qed

lemma final_cell:
  "astype_cell (fillna_cell (reindex_cell idx (groupby_count_rsid d) l))
     = Inr (Int64 (count_rsid d l))"
  by (simp add: reindex_cell_def map_of_groupby fillna_cell_def astype_cell_def count_rsid_absent)

lemma astype_map:
  "(\<And>l. l \<in> set idx \<Longrightarrow> astype_row (f l) = Inr (g l)) \<Longrightarrow> astype (map f idx) = Inr (map g idx)"
  by (induction idx) auto

lemma collect_annotation_stats_eq:
  "collect_annotation_stats df = Inr (map (stats_of df) (group_keys df))"
proof -
  let ?a = "groupby_count_rsid (mapped_rows df)"
  let ?b = "groupby_count_rsid (failed_rows df)"
  let ?c = "groupby_count_rsid (intergenic_rows df)"
  let ?idx = "group_keys df"
  let ?f = "\<lambda>l. \<lparr>s_chromosome = l, s_intra_mapped = fillna_cell (reindex_cell ?idx ?a l),
     s_intra_failed = fillna_cell (reindex_cell ?idx ?b l),
     s_intergenic = fillna_cell (reindex_cell ?idx ?c l)\<rparr>"
  have "fillna (concat_axis1 ?a ?b ?c) = map ?f ?idx"
    by (simp add: fillna_def concat_axis1_def union_index_groups Let_def comp_def)
  moreover have "astype (map ?f ?idx) = Inr (map (stats_of df) ?idx)"
    by (rule astype_map) (simp add: astype_row_def final_cell stats_of_def)
  ultimately show ?thesis
    by (simp add: collect_annotation_stats_def Let_def)
qed

lemma stats_labels: "map s_chromosome (map (stats_of df) ks) = ks"
  by (induction ks) (simp_all add: stats_of_def)

lemma stats_row_of:
  "r \<in> set (map (stats_of df) ks) \<Longrightarrow> r = stats_of df (s_chromosome r)"
  by (auto simp: stats_of_def)

lemmas selection_defs = mapped_rows_def failed_rows_def intergenic_rows_def is_intergenic_def
  is_not_intergenic_def is_mapped_def is_not_mapped_def

lemma mixed_group_keys: "group_keys mixed_annotated = [''1'', ''2'']"
  by (simp add: group_keys_def mixed_annotated_def List.map_filter_def)

lemma mixed_stats:
  "collect_annotation_stats mixed_annotated =
     Inr [\<lparr>s_chromosome = ''1'', s_intra_mapped = Int64 1, s_intra_failed = Int64 1,
            s_intergenic = Int64 0\<rparr>,
          \<lparr>s_chromosome = ''2'', s_intra_mapped = Int64 0, s_intra_failed = Int64 0,
            s_intergenic = Int64 1\<rparr>]"
  by (simp only: collect_annotation_stats_eq mixed_group_keys)
    (simp add: stats_of_def count_rsid_def selection_defs mixed_annotated_def)

lemma unnamed_group_keys: "group_keys unnamed_annotated = [''1'']"
  by (simp add: group_keys_def unnamed_annotated_def List.map_filter_def)

lemma unnamed_stats:
  "collect_annotation_stats unnamed_annotated =
     Inr [\<lparr>s_chromosome = ''1'', s_intra_mapped = Int64 0, s_intra_failed = Int64 0,
            s_intergenic = Int64 0\<rparr>]"
  by (simp only: collect_annotation_stats_eq unnamed_group_keys)
    (simp add: stats_of_def count_rsid_def selection_defs unnamed_annotated_def)

text \<open>
  The statistics frame does not depend on the order of the rows of the annotated frame,
  so it is the same for every result that \<^verbatim>\<open>annotate_variants\<close> may return with the
  same rows.
\<close>

lemma count_rsid_order_free:
  assumes "mset d = mset d'"
  shows "count_rsid d c = count_rsid d' c"
proof -
  have "length (filter P d) = length (filter P d')" for P
    using assms by (metis mset_filter size_mset)
  then show ?thesis by (simp add: count_rsid_def)
qed

lemma stats_order_free:
  assumes "mset df = mset df'"
  shows "collect_annotation_stats df = collect_annotation_stats df'"
proof -
  have sel: "mset (mapped_rows df) = mset (mapped_rows df')"
    "mset (failed_rows df) = mset (failed_rows df')"
    "mset (intergenic_rows df) = mset (intergenic_rows df')"
    using assms by (simp_all add: mapped_rows_def failed_rows_def intergenic_rows_def)
  from assms have "set df = set df'" by (rule mset_eq_setD)
  then have "set (group_keys df) = set (group_keys df')" by (simp add: group_keys_set)
  then have keys: "group_keys df = group_keys df'"
    using group_keys_canonical [of df] group_keys_canonical [of df'] by simp
  have "stats_of df l = stats_of df' l" for l
    by (simp add: stats_of_def count_rsid_order_free [OF sel(1)]
        count_rsid_order_free [OF sel(2)] count_rsid_order_free [OF sel(3)])
  then show ?thesis by (simp add: collect_annotation_stats_eq keys)
qed


text \<open>
  Claim C5. For every annotated frame, \<^verbatim>\<open>collect_annotation_stats\<close> returns a frame (it
  does not raise) with one row for each chromosome that has a row in the annotated frame
  and no other row. Each of the three counts of a row is an \<^verbatim>\<open>int64\<close>, and it is 0 when
  the chromosome has no row in the selection of that count.
\<close>

theorem collect_annotation_stats_integer_rows:
  "\<exists>st. collect_annotation_stats df = Inr st \<and>
     distinct (map s_chromosome st) \<and>
     set (map s_chromosome st) = {c. rows_on df c \<noteq> []} \<and>
     (\<forall>r \<in> set st. \<exists>m f i.
        s_intra_mapped r = Int64 m \<and> s_intra_failed r = Int64 f \<and> s_intergenic r = Int64 i \<and>
        (rows_on (mapped_rows df) (s_chromosome r) = [] \<longrightarrow> m = 0) \<and>
        (rows_on (failed_rows df) (s_chromosome r) = [] \<longrightarrow> f = 0) \<and>
        (rows_on (intergenic_rows df) (s_chromosome r) = [] \<longrightarrow> i = 0))"
proof (rule exI [of _ "map (stats_of df) (group_keys df)"], intro conjI ballI)
  let ?st = "map (stats_of df) (group_keys df)"
  show "collect_annotation_stats df = Inr ?st" by (rule collect_annotation_stats_eq)
  show "distinct (map s_chromosome ?st)"
    by (simp only: stats_labels group_keys_distinct)
  show "set (map s_chromosome ?st) = {c. rows_on df c \<noteq> []}"
    by (simp only: stats_labels group_keys_rows_on)
  fix r
  assume "r \<in> set ?st"
  then have r: "r = stats_of df (s_chromosome r)" by (rule stats_row_of)
  show "\<exists>m f i.
        s_intra_mapped r = Int64 m \<and> s_intra_failed r = Int64 f \<and> s_intergenic r = Int64 i \<and>
        (rows_on (mapped_rows df) (s_chromosome r) = [] \<longrightarrow> m = 0) \<and>
        (rows_on (failed_rows df) (s_chromosome r) = [] \<longrightarrow> f = 0) \<and>
        (rows_on (intergenic_rows df) (s_chromosome r) = [] \<longrightarrow> i = 0)"
    by (subst r, subst (2) r, subst (3) r)
      (simp add: stats_of_def count_rsid_named named_rows_def)
qed


text \<open>
  The theorem at the mixed example: chromosome 1 has no intergenic row, chromosome 2 no
  mapped and no failed row, and those counts are the integer 0.
\<close>

theorem collect_annotation_stats_integer_rows_witness:
  "collect_annotation_stats mixed_annotated =
     Inr [\<lparr>s_chromosome = ''1'', s_intra_mapped = Int64 1, s_intra_failed = Int64 1,
            s_intergenic = Int64 0\<rparr>,
          \<lparr>s_chromosome = ''2'', s_intra_mapped = Int64 0, s_intra_failed = Int64 0,
            s_intergenic = Int64 1\<rparr>] \<and>
   rows_on (intergenic_rows mixed_annotated) ''1'' = [] \<and>
   rows_on (mapped_rows mixed_annotated) ''2'' = [] \<and>
   rows_on (failed_rows mixed_annotated) ''2'' = [] \<and>
   {c. rows_on mixed_annotated c \<noteq> []} = {''1'', ''2''}"
proof -
  have empty: "rows_on (intergenic_rows mixed_annotated) ''1'' = [] \<and>
      rows_on (mapped_rows mixed_annotated) ''2'' = [] \<and>
      rows_on (failed_rows mixed_annotated) ''2'' = []"
    by (simp add: rows_on_def selection_defs mixed_annotated_def)
  from collect_annotation_stats_integer_rows [of mixed_annotated] empty
  show ?thesis by (auto simp: mixed_stats)
qed

text \<open>
  The frame of one intergenic variant on chromosome 1 whose \<^verbatim>\<open>rsid\<close> is missing, as
  \<^verbatim>\<open>annotate_variants\<close> returns it. The statistics row of chromosome 1 has the counts 0,
  0 and 0, and the frame has one row on that chromosome.
\<close>

theorem stats_sum_below_row_count:
  "annotate_variants unnamed_variants no_genes = Inr [unnamed_annotated] \<and>
   collect_annotation_stats unnamed_annotated =
     Inr [\<lparr>s_chromosome = ''1'', s_intra_mapped = Int64 0, s_intra_failed = Int64 0,
            s_intergenic = Int64 0\<rparr>] \<and>
   length (rows_on unnamed_annotated ''1'') = 1"
  by (simp add: unnamed_stats unnamed_result) (simp add: unnamed_annotated_def rows_on_def)

text \<open>
  Claim C4, amended. For every annotated frame and every chromosome that has a row in it,
  the statistics frame has exactly one row for that chromosome, and its three counts sum
  to the number of rows on that chromosome whose \<^verbatim>\<open>rsid\<close> is not missing. The sum is
  the number of all rows on the chromosome when no row on it lacks its \<^verbatim>\<open>rsid\<close>.
\<close>

theorem stats_sum_named_rows:
  assumes "rows_on df c \<noteq> []"
  shows "\<exists>st m f i. collect_annotation_stats df = Inr st \<and>
     filter (\<lambda>r. s_chromosome r = c) st
       = [\<lparr>s_chromosome = c, s_intra_mapped = Int64 m, s_intra_failed = Int64 f,
           s_intergenic = Int64 i\<rparr>] \<and>
     m + f + i = int (length (named_rows (rows_on df c))) \<and>
     (unnamed_rows (rows_on df c) = [] \<longrightarrow> m + f + i = int (length (rows_on df c)))"
proof -
  let ?st = "map (stats_of df) (group_keys df)"
  let ?m = "count_rsid (mapped_rows df) c"
  let ?f = "count_rsid (failed_rows df) c"
  let ?i = "count_rsid (intergenic_rows df) c"
  from assms have c: "c \<in> set (group_keys df)" by (simp add: group_keys_rows_on)
  have "filter (\<lambda>r. s_chromosome r = c) (map (stats_of df) ks) = [stats_of df c]"
    if "distinct ks" and "c \<in> set ks" for ks
    using that by (induction ks) (auto simp: stats_of_def filter_empty_conv)
  with c have row: "filter (\<lambda>r. s_chromosome r = c) ?st
      = [\<lparr>s_chromosome = c, s_intra_mapped = Int64 ?m, s_intra_failed = Int64 ?f,
          s_intergenic = Int64 ?i\<rparr>]"
    by (simp add: group_keys_distinct stats_of_def)
  have total: "?m + ?f + ?i = int (length (named_rows (rows_on df c)))"
    by (rule count_rsid_sum)
  have "unnamed_rows (rows_on df c) = [] \<longrightarrow> ?m + ?f + ?i = int (length (rows_on df c))"
    using named_unnamed [of "rows_on df c"] total by auto
  with collect_annotation_stats_eq [of df] row total show ?thesis by blast
qed

text \<open>
  The theorem at chromosome 1 of the mixed example: two rows, none without \<^verbatim>\<open>rsid\<close>,
  and the counts 1, 1 and 0.
\<close>

theorem stats_sum_named_rows_witness:
  "rows_on mixed_annotated ''1'' \<noteq> [] \<and>
   unnamed_rows (rows_on mixed_annotated ''1'') = [] \<and>
   length (rows_on mixed_annotated ''1'') = 2 \<and>
   collect_annotation_stats mixed_annotated =
     Inr [\<lparr>s_chromosome = ''1'', s_intra_mapped = Int64 1, s_intra_failed = Int64 1,
            s_intergenic = Int64 0\<rparr>,
          \<lparr>s_chromosome = ''2'', s_intra_mapped = Int64 0, s_intra_failed = Int64 0,
            s_intergenic = Int64 1\<rparr>]"
proof -
  have rows: "rows_on mixed_annotated ''1'' \<noteq> [] \<and>
      unnamed_rows (rows_on mixed_annotated ''1'') = [] \<and>
      length (rows_on mixed_annotated ''1'') = 2"
    by (simp add: rows_on_def unnamed_rows_def mixed_annotated_def)
  with stats_sum_named_rows [of mixed_annotated "''1''"] mixed_stats
  show ?thesis by simp
qed

text \<open>
  Claim C10. For every annotated frame and every row of its statistics frame, each of the
  three counts is the number of rows of its selection on the chromosome of that row whose
  \<^verbatim>\<open>rsid\<close> is not missing. A row whose \<^verbatim>\<open>rsid\<close> is missing is counted in none of
  them: the three counts and the number of such rows on the chromosome sum to the number
  of all rows on the chromosome.
\<close>

theorem stats_count_named_rows_only:
  "\<exists>st. collect_annotation_stats df = Inr st \<and>
     (\<forall>r \<in> set st. \<exists>m f i.
        s_intra_mapped r = Int64 m \<and> s_intra_failed r = Int64 f \<and> s_intergenic r = Int64 i \<and>
        m = int (length (named_rows (rows_on (mapped_rows df) (s_chromosome r)))) \<and>
        f = int (length (named_rows (rows_on (failed_rows df) (s_chromosome r)))) \<and>
        i = int (length (named_rows (rows_on (intergenic_rows df) (s_chromosome r)))) \<and>
        m + f + i + int (length (unnamed_rows (rows_on df (s_chromosome r))))
          = int (length (rows_on df (s_chromosome r))))"
proof (rule exI [of _ "map (stats_of df) (group_keys df)"], intro conjI ballI)
  let ?st = "map (stats_of df) (group_keys df)"
  show "collect_annotation_stats df = Inr ?st" by (rule collect_annotation_stats_eq)
  fix r
  assume "r \<in> set ?st"
  then have r: "r = stats_of df (s_chromosome r)" by (rule stats_row_of)
  let ?l = "s_chromosome r"
  have sum: "count_rsid (mapped_rows df) ?l + count_rsid (failed_rows df) ?l
      + count_rsid (intergenic_rows df) ?l + int (length (unnamed_rows (rows_on df ?l)))
      = int (length (rows_on df ?l))"
    using count_rsid_sum [of df ?l] named_unnamed [of "rows_on df ?l"] by simp
  have cells: "s_intra_mapped r = Int64 (count_rsid (mapped_rows df) ?l) \<and>
      s_intra_failed r = Int64 (count_rsid (failed_rows df) ?l) \<and>
      s_intergenic r = Int64 (count_rsid (intergenic_rows df) ?l)"
    by (subst r, subst (2) r, subst (3) r) (simp add: stats_of_def)
  from cells sum show "\<exists>m f i.
        s_intra_mapped r = Int64 m \<and> s_intra_failed r = Int64 f \<and> s_intergenic r = Int64 i \<and>
        m = int (length (named_rows (rows_on (mapped_rows df) (s_chromosome r)))) \<and>
        f = int (length (named_rows (rows_on (failed_rows df) (s_chromosome r)))) \<and>
        i = int (length (named_rows (rows_on (intergenic_rows df) (s_chromosome r)))) \<and>
        m + f + i + int (length (unnamed_rows (rows_on df (s_chromosome r))))
          = int (length (rows_on df (s_chromosome r)))"
    by (simp add: count_rsid_named)
qed

text \<open>
  The theorem at chromosome 2 of the mixed example: two intergenic rows, one of them
  without \<^verbatim>\<open>rsid\<close>, and the intergenic count is 1.
\<close>

theorem stats_count_named_rows_only_witness:
  "collect_annotation_stats mixed_annotated =
     Inr [\<lparr>s_chromosome = ''1'', s_intra_mapped = Int64 1, s_intra_failed = Int64 1,
            s_intergenic = Int64 0\<rparr>,
          \<lparr>s_chromosome = ''2'', s_intra_mapped = Int64 0, s_intra_failed = Int64 0,
            s_intergenic = Int64 1\<rparr>] \<and>
   length (named_rows (rows_on (intergenic_rows mixed_annotated) ''2'')) = 1 \<and>
   length (unnamed_rows (rows_on mixed_annotated ''2'')) = 1 \<and>
   length (rows_on mixed_annotated ''2'') = 2"
proof -
  have "length (unnamed_rows (rows_on mixed_annotated ''2'')) = 1"
    by (simp add: rows_on_def unnamed_rows_def mixed_annotated_def)
  with stats_count_named_rows_only [of mixed_annotated] show ?thesis
    by (auto simp: mixed_stats)
qed


section \<open>The two readers\<close>

lemma read_csv_column:
  "column_of (read_csv pf dtype fp) name =
     map_option (\<lambda>texts. if map_of dtype name = Some Object_dtype then convert_object texts
                          else convert_inferred pf texts) (map_of fp name)"
  unfolding column_of_def read_csv_def by (induction fp) auto

lemma read_processed_variants_transcript:
  "column_of (read_processed_variants pf fp) ''transcript''
     = map_option (\<lambda>texts. (Object_dtype, map (\<lambda>s. if is_na s then NA else Obj s) texts))
         (map_of fp ''transcript'')"
  by (simp add: read_processed_variants_def read_csv_column convert_object_def)

lemma int_literal_007: "int_literal ''007'' = Some 7"
  by (simp add: int_literal_def signed_literal_def nat_literal_def digit_def)

lemma is_na_007: "\<not> is_na ''007''"
  by (simp add: is_na_def na_values_def)

text \<open>
  Claim C7. The reader of the variant table requests the dtype \<^verbatim>\<open>object\<close> for the
  transcript column, the reader of the gene table requests nothing. At a gene file whose
  \<^verbatim>\<open>transcript_id\<close> field is \<^verbatim>\<open>007\<close>, the column is read as the \<^verbatim>\<open>int64\<close> 7, while the
  variant reader keeps the text \<^verbatim>\<open>007\<close> of the same field; and on a gene frame with an
  \<^verbatim>\<open>int64\<close> key column \<^verbatim>\<open>annotate_variants\<close> raises \<^verbatim>\<open>ValueError\<close>.
\<close>

theorem read_processed_genes_infers_transcript_id:
  "column_of (read_processed_genes pf numeric_gene_file) ''transcript_id''
     = Some (Int64_dtype, [I64 7]) \<and>
   column_of (read_processed_variants pf numeric_variant_file) ''transcript''
     = Some (Object_dtype, [Obj ''007'']) \<and>
   annotate_variants vdf \<lparr>transcript_id_dtype = Int64_dtype, gene_rows = rows\<rparr>
     = Inl ValueError"
  by (simp add: read_processed_variants_transcript annotate_variants_raises)
    (simp add: read_processed_genes_def read_csv_column numeric_gene_file_def
      numeric_variant_file_def convert_inferred_def int_literal_007 is_na_007)


section \<open>The drivers\<close>

lemma hg38_iteration_annotated:
  "annotated (hg38_iteration args chrom s) = annotated s @ [annotated_future args chrom]"
  by (simp add: hg38_iteration_def persist_def scatter_def submit_def Let_def
      annotated_future_def)

lemma hg38_iteration_intergenic:
  "intergenic (hg38_iteration args chrom s) = intergenic s @ [intergenic_future args chrom]"
  by (simp add: hg38_iteration_def persist_def scatter_def submit_def Let_def
      intergenic_future_def)

lemma hg38_iteration_stats: "stats (hg38_iteration args chrom s) = stats s"
  by (simp add: hg38_iteration_def persist_def scatter_def submit_def Let_def)

lemma hg38_iteration_logged:
  "logged (hg38_iteration args chrom s) = logged s @ [start_message chrom]"
  by (simp add: hg38_iteration_def persist_def scatter_def submit_def Let_def
      start_message_def)

lemma hg38_iteration_submitted:
  "submitted (the_client (hg38_iteration args chrom s))
     = submitted (the_client s) @ tasks args chrom"
  by (simp add: hg38_iteration_def persist_def scatter_def submit_def Let_def tasks_def
      annotated_future_def intergenic_future_def annotated_frame_def)

lemma hg38_loop_annotated:
  "annotated (hg38_loop args chroms s)
     = annotated s @ map (annotated_future args) (processed chroms)"
  by (induction chroms arbitrary: s) (simp_all add: hg38_iteration_annotated Let_def)

lemma hg38_loop_intergenic:
  "intergenic (hg38_loop args chroms s)
     = intergenic s @ map (intergenic_future args) (processed chroms)"
  by (induction chroms arbitrary: s) (simp_all add: hg38_iteration_intergenic Let_def)

lemma hg38_loop_stats: "stats (hg38_loop args chroms s) = stats s"
  by (induction chroms arbitrary: s) (simp_all add: hg38_iteration_stats Let_def)

lemma hg38_loop_logged:
  "logged (hg38_loop args chroms s) = logged s @ map start_message (processed chroms)"
  by (induction chroms arbitrary: s) (simp_all add: hg38_iteration_logged Let_def)

lemma hg38_loop_submitted:
  "submitted (the_client (hg38_loop args chroms s))
     = submitted (the_client s) @ concat (map (tasks args) (processed chroms))"
  by (induction chroms arbitrary: s) (simp_all add: hg38_iteration_submitted Let_def)

lemma processed_up_to_3:
  "''3'' \<notin> set before \<Longrightarrow> processed (before @ ''3'' # rest) = before @ [''3'']"
  by (induction before) auto

lemma processed_without_3: "''3'' \<notin> set chroms \<Longrightarrow> processed chroms = chroms"
  by (induction chroms) auto

lemma no_stats_task: "filter is_stats_task (concat (map (tasks args) chroms)) = []"
  by (induction chroms)
    (simp_all add: tasks_def annotated_future_def intergenic_future_def)

lemma written_paths:
  "List.map_filter written_path (concat (map (tasks args) chroms))
     = concat (map (\<lambda>chrom.
         [Path (annotated_dir args) (''annotated-chromosome-'' @ chrom @ ''.tsv''),
          Path (intergenic_dir args) (''intergenic-chromosome-'' @ chrom @ ''.tsv'')]) chroms)"
  by (induction chroms)
    (simp_all add: tasks_def annotated_future_def intergenic_future_def List.map_filter_def)

text \<open>
  Claim C6. On a chromosome list in which \<^verbatim>\<open>3\<close> stands after the chromosomes \<open>before\<close>,
  none of which is \<^verbatim>\<open>3\<close>, \<^verbatim>\<open>run_hg38_annotations\<close> runs its iteration for the
  chromosomes \<open>before\<close> and for \<^verbatim>\<open>3\<close>, and for no chromosome of the rest of the list:
  the two lists of futures it returns, the messages it logs and the tasks it submits
  are those of these chromosomes.
\<close>

theorem run_hg38_stops_after_chromosome_3:
  assumes "''3'' \<notin> set before"
  shows "fst (run_hg38_annotations (before @ ''3'' # rest) c args)
      = [(''annotated'', map (annotated_future args) (before @ [''3''])),
         (''intergenic'', map (intergenic_future args) (before @ [''3'']))] \<and>
    logged (snd (run_hg38_annotations (before @ ''3'' # rest) c args))
      = map start_message (before @ [''3'']) \<and>
    submitted (the_client (snd (run_hg38_annotations (before @ ''3'' # rest) c args)))
      = submitted c @ concat (map (tasks args) (before @ [''3'']))"
  using processed_up_to_3 [OF assms, of rest]
  by (simp add: run_hg38_annotations_def Let_def hg38_loop_annotated hg38_loop_intergenic
      hg38_loop_logged hg38_loop_submitted)

text \<open>
  The theorem at the list of the human chromosomes: \<^verbatim>\<open>3\<close> is the third of 24, the run
  returns three futures in each list, and the 21 chromosomes after \<^verbatim>\<open>3\<close> are left out.
\<close>

theorem run_hg38_stops_after_chromosome_3_witness:
  "''3'' \<notin> set [''1'', ''2''] \<and>
   human_chromosomes = [''1'', ''2''] @ ''3'' # drop 3 human_chromosomes \<and>
   length (drop 3 human_chromosomes) = 21 \<and>
   fst (run_hg38_annotations human_chromosomes new_client example_args)
     = [(''annotated'', map (annotated_future example_args) [''1'', ''2'', ''3'']),
        (''intergenic'', map (intergenic_future example_args) [''1'', ''2'', ''3''])] \<and>
   logged (snd (run_hg38_annotations human_chromosomes new_client example_args))
     = [''Starting chromosome 1 work'', ''Starting chromosome 2 work'',
        ''Starting chromosome 3 work'']"
proof -
  have split: "human_chromosomes = [''1'', ''2''] @ ''3'' # drop 3 human_chromosomes"
    and rest: "length (drop 3 human_chromosomes) = 21"
    by (simp_all add: human_chromosomes_def)
  have "''3'' \<notin> set [''1'', ''2'']" by simp
  from run_hg38_stops_after_chromosome_3 [OF this, of "drop 3 human_chromosomes"
      new_client example_args]
  have "fst (run_hg38_annotations human_chromosomes new_client example_args)
     = [(''annotated'', map (annotated_future example_args) [''1'', ''2'', ''3'']),
        (''intergenic'', map (intergenic_future example_args) [''1'', ''2'', ''3''])] \<and>
   logged (snd (run_hg38_annotations human_chromosomes new_client example_args))
     = [''Starting chromosome 1 work'', ''Starting chromosome 2 work'',
        ''Starting chromosome 3 work'']"
    unfolding split [symmetric] by (simp add: start_message_def)
  with split rest show ?thesis by simp
qed

text \<open>
  Claim C9. For every chromosome list, client and arguments, the dictionary that
  \<^verbatim>\<open>run_hg38_annotations\<close> returns has exactly the keys \<^verbatim>\<open>annotated\<close> and
  \<^verbatim>\<open>intergenic\<close>; its list \<^verbatim>\<open>stats\<close> stays empty; none of the tasks it submits computes
  or writes statistics; and the files its tasks write are the annotated and the
  intergenic file of each chromosome it processed.
\<close>

theorem run_hg38_no_statistics:
  "map fst (fst (run_hg38_annotations chroms c args)) = [''annotated'', ''intergenic''] \<and>
   stats (snd (run_hg38_annotations chroms c args)) = [] \<and>
   filter is_stats_task
     (drop (length (submitted c))
        (submitted (the_client (snd (run_hg38_annotations chroms c args))))) = [] \<and>
   List.map_filter written_path
     (drop (length (submitted c))
        (submitted (the_client (snd (run_hg38_annotations chroms c args)))))
     = concat (map (\<lambda>chrom.
         [Path (annotated_dir args) (''annotated-chromosome-'' @ chrom @ ''.tsv''),
          Path (intergenic_dir args) (''intergenic-chromosome-'' @ chrom @ ''.tsv'')])
         (processed chroms))"
  by (simp add: run_hg38_annotations_def Let_def hg38_loop_stats hg38_loop_submitted
      no_stats_task written_paths)

text \<open>
  For comparison, \<^verbatim>\<open>run_mm10_annotations\<close> returns the key \<^verbatim>\<open>stats\<close> too and submits the
  two statistics tasks.
\<close>

lemma run_mm10_statistics:
  "map fst (fst (run_mm10_annotations c args)) = [''annotated'', ''intergenic'', ''stats''] \<and>
   filter is_stats_task
     (drop (length (submitted c)) (submitted (snd (run_mm10_annotations c args))))
     = [Collect_annotation_stats
          (Annotate_variants (Read_processed_variants (mm10_variant_fp args))
             (Read_processed_genes (mm10_gene_fp args))),
        Write_annotation_stats
          (Collect_annotation_stats
             (Annotate_variants (Read_processed_variants (mm10_variant_fp args))
                (Read_processed_genes (mm10_gene_fp args))))
          (mm10_stats_fp args)]"
  by (simp add: run_mm10_annotations_def persist_def scatter_def submit_def Let_def)

end
